theory Spec2Isabelle
  imports Complex_Main
begin

section \<open>Numbers, random draws and errors\<close>

text \<open>
  Python floats are modelled as real numbers: \<open>10 ** x\<close> is \<open>10 powr x\<close>,
  \<open>np.log10 x\<close> is \<open>log 10 x\<close>, \<open>math.sqrt\<close> and \<open>np.sqrt\<close> are \<open>sqrt\<close>.
  Rounding is outside this model. A numeric cell that can be empty in a table (NaN after
  \<open>pd.read_csv\<close>) is an option, with \<open>None\<close> for the empty cell; a comparison with NaN is
  false. Where a script divides by a number that can be zero, numpy returns an infinity
  or NaN instead of raising; those places are written out case by case in the
  definitions below.

  The scripts draw from the process-wide generators of \<open>random\<close> and \<open>numpy.random\<close>;
  none of them takes a seed or a generator as an argument. The model makes the values that
  those calls return an explicit argument of each function: a call of \<open>random.random()\<close>
  yields a number \<open>r\<close> with \<open>0 \<le> r < 1\<close>, \<open>random.uniform(a, b)\<close> is
  \<open>a + (b - a) * random.random()\<close>, and a call that picks one of \<open>n\<close> positions
  (\<open>random.choice\<close>, \<open>random.randint\<close>, \<open>DataFrame.sample\<close>) is given by a natural
  number \<open>k\<close> that is reduced modulo \<open>n\<close>.
\<close>

definition cell_less :: "real option \<Rightarrow> real \<Rightarrow> bool" where
  "cell_less c x = (case c of None \<Rightarrow> False | Some v \<Rightarrow> v < x)"

definition cell_greater :: "real option \<Rightarrow> real \<Rightarrow> bool" where
  "cell_greater c x = (case c of None \<Rightarrow> False | Some v \<Rightarrow> v > x)"

definition uniform :: "real \<Rightarrow> real \<Rightarrow> real \<Rightarrow> real" where
  "uniform a b r = a + (b - a) * r"

definition randint :: "nat \<Rightarrow> nat \<Rightarrow> nat \<Rightarrow> nat" where
  "randint a b k = a + k mod (b - a + 1)"

definition choice :: "'a list \<Rightarrow> nat \<Rightarrow> 'a" where
  "choice xs k = xs ! (k mod length xs)"

datatype error = FileNotFoundError | ParserError | ValueError

section \<open>Data model\<close>

text \<open>
  One row of a catalog table. The first nine columns are the ones every table of the
  pipeline carries; the other columns exist only in some tables, and \<open>None\<close> stands for
  a cell that is absent (NaN after \<open>pd.concat\<close>). The depth of a real event is copied from
  the source catalog by \<open>prepare_marmara_catalog\<close> as it is, so its cell can be empty; the
  generators compare it and copy it, and compute nothing from it. The other numeric cells
  that the scripts read are taken to be filled. The columns \<open>id\<close> and \<open>method\<close> are named
  \<open>event_id\<close> and \<open>method_tag\<close> here. The \<open>datetime\<close> and \<open>mag_range\<close> columns, which no
  computation reads back, are left out.
\<close>

record event =
  event_id :: string
  time :: string
  magnitude :: real
  longitude :: real
  latitude :: real
  depth_km :: "real option"
  is_synthetic :: int
  sample_weight :: real
  method_tag :: string
  log_energy :: "real option"
  rupture_length_km :: "real option"
  rupture_width_km :: "real option"
  rupture_area_km2 :: "real option"
  avg_slip_m :: "real option"
  segment_id :: "string option"
  strike :: "real option"
  dip :: "real option"
  rake :: "real option"
  year :: "int option"
  cv_fold :: "int option"

text \<open>One row of \<open>marmara_faults.csv\<close>; \<open>coordinates\<close> is the encoded polyline.\<close>

record segment =
  fault_segment_id :: string
  fault_name :: string
  coordinates :: string
  fault_strike :: real
  fault_dip :: real
  fault_rake :: real
  length_km :: real
  seismogenic_thickness_km :: real

text \<open>
  The files under \<open>data/processed\<close> and \<open>data/raw\<close> that the scripts read and write;
  \<open>None\<close> is a file that does not exist, \<open>Some []\<close> a table with a header and no row.
\<close>

record store =
  processed_earthquakes :: "event list option"
  marmara_faults :: "segment list option"
  b_value_txt :: "string option"
  synthetic_bootstrap_v1 :: "event list option"
  synthetic_physics_snapshots_v1 :: "event list option"
  combined_dataset_v1 :: "event list option"
  synthetic_simple_v1 :: "event list option"
  final_dataset_v1 :: "event list option"

section \<open>The sanity check shared by the generators\<close>

text \<open>
  \<^verbatim>\<open>
  invalid_events = synthetics_df[
      (synthetics_df['depth_km'] < 0) |
      (synthetics_df['rupture_length_km'] > 200)]
  if not invalid_events.empty:
      synthetics_df = synthetics_df[~synthetics_df.index.isin(invalid_events.index)]
  \<close>
  The index of \<open>synthetics_df\<close> has no duplicate label, so removing by index removes
  exactly the selected rows.
\<close>

definition invalid_event :: "event \<Rightarrow> bool" where
  "invalid_event e =
     (cell_less (depth_km e) 0 \<or> cell_greater (rupture_length_km e) 200)"

definition sanity_check :: "event list \<Rightarrow> event list" where
  "sanity_check synthetics_df =
     (let invalid_events = filter invalid_event synthetics_df
      in if invalid_events \<noteq> []
         then filter (\<lambda>e. e \<notin> set invalid_events) synthetics_df
         else synthetics_df)"

text \<open>
  Of the lines the generators print, the model keeps the ones that report a condition:
  \<^verbatim>\<open>Warning: Found {n} events with unphysical values. Removing them.\<close>,
  \<^verbatim>\<open>Warning: No suitable segment found for M... event\<close> (with the index of the
  candidate) and \<^verbatim>\<open>No synthetic events were generated.\<close>
\<close>

datatype message = Removing_unphysical nat | No_suitable_segment nat | No_synthetic_events

definition sanity_report :: "event list \<Rightarrow> message list" where
  "sanity_report synthetics_df =
     (let invalid_events = filter invalid_event synthetics_df
      in if invalid_events \<noteq> [] then [Removing_unphysical (length invalid_events)] else [])"

section \<open>Bootstrap strategy (generate_bootstrap_synthetics)\<close>

text \<open>
  The body of the loop over the template rows. \<open>r\<close> is the value of
  \<open>random.random()\<close> inside \<open>random.uniform(1.5, 2.3)\<close>.
  \<^verbatim>\<open>
  original_mag = event['magnitude']
  magnitude_increase = random.uniform(1.5, 2.3)
  new_mag = original_mag + magnitude_increase
  synthetic = event.copy()
  synthetic['magnitude'] = new_mag
  synthetic['id'] = f"SYN_{event['id']}"
  synthetic['log_energy'] = event['log_energy'] + 1.5 * magnitude_increase
  new_length = 10 ** (-2.44 + 0.59 * new_mag)
  new_width = 10 ** (-1.01 + 0.32 * new_mag)
  synthetic['rupture_length_km'] = new_length
  synthetic['rupture_width_km'] = new_width
  synthetic['rupture_area_km2'] = new_length * new_width
  synthetic['is_synthetic'] = 1
  synthetic['sample_weight'] = 0.3
  synthetic['method'] = 'bootstrap'
  \<close>
\<close>

definition bootstrap_event :: "event \<Rightarrow> real \<Rightarrow> event" where
  "bootstrap_event event r =
     (let original_mag = magnitude event;
          magnitude_increase = uniform 1.5 2.3 r;
          new_mag = original_mag + magnitude_increase;
          new_length = 10 powr (- 2.44 + 0.59 * new_mag);
          new_width = 10 powr (- 1.01 + 0.32 * new_mag)
      in event
          \<lparr>magnitude := new_mag,
           event_id := ''SYN_'' @ event_id event,
           log_energy := map_option (\<lambda>e. e + 1.5 * magnitude_increase) (log_energy event),
           rupture_length_km := Some new_length,
           rupture_width_km := Some new_width,
           rupture_area_km2 := Some (new_length * new_width),
           is_synthetic := 1,
           sample_weight := 0.3,
           method_tag := ''bootstrap''\<rparr>)"

text \<open>
  \<open>template_events\<close> selects the rows with \<open>5.0 \<le> magnitude < 6.0\<close>; the loop visits
  them in table order and the \<open>k\<close>-th one consumes the \<open>k\<close>-th draw \<open>rs k\<close>.
\<close>

definition template_events :: "event list \<Rightarrow> event list" where
  "template_events eq_data = filter (\<lambda>e. 5.0 \<le> magnitude e \<and> magnitude e < 6.0) eq_data"

definition bootstrap_synthetic_events :: "event list \<Rightarrow> (nat \<Rightarrow> real) \<Rightarrow> event list" where
  "bootstrap_synthetic_events templates rs =
     map (\<lambda>k. bootstrap_event (templates ! k) (rs k)) [0..<length templates]"

text \<open>
  The whole script. \<open>to_year\<close> stands for \<open>pd.to_datetime\<close> followed by \<open>.dt.year\<close>:
  \<open>None\<close> when pandas cannot parse the text, in which case \<open>pd.to_datetime\<close> raises
  (the model takes the column cell by cell).
  The result is the value the function returns (\<open>None\<close> or the table), the files after
  the run and the reports printed; plotting is left out.
\<close>

definition generate_bootstrap_synthetics ::
  "(string \<Rightarrow> int option) \<Rightarrow> (nat \<Rightarrow> real) \<Rightarrow> store
     \<Rightarrow> error + (event list option \<times> store \<times> message list)" where
  "generate_bootstrap_synthetics to_year rs st =
     (case processed_earthquakes st of
        None \<Rightarrow> Inl FileNotFoundError
      | Some eq_data \<Rightarrow>
          if \<exists>e \<in> set eq_data. to_year (time e) = None then Inl ParserError
          else
            let synthetic_events = bootstrap_synthetic_events (template_events eq_data) rs
            in if synthetic_events \<noteq> []
               then let synthetics_df = sanity_check synthetic_events
                    in Inr (Some synthetics_df,
                            st\<lparr>synthetic_bootstrap_v1 := Some synthetics_df\<rparr>,
                            sanity_report synthetic_events)
               else Inr (None, st, [No_synthetic_events]))"

section \<open>Physics strategy (generate_physics_snapshots)\<close>

subsection \<open>Magnitude sampling (step 1)\<close>

text \<open>
  \<^verbatim>\<open>
  r = random.random()
  mag = 6.5 - np.log10(1 - r) / b_value
  mag = min(mag, 7.3)
  \<close>
  \<open>np.log10(1 - r)\<close> is a numpy float, so a zero \<open>b_value\<close> does not raise: for
  \<open>r > 0\<close> the quotient is \<open>-inf\<close>, \<open>mag\<close> is \<open>inf\<close> and \<open>min\<close> returns 7.3; for
  \<open>r = 0\<close> the quotient is NaN and so is \<open>mag\<close>, written \<open>None\<close> here.
\<close>

definition sample_magnitude :: "real \<Rightarrow> real \<Rightarrow> real option" where
  "sample_magnitude b_value r =
     (if b_value = 0 then (if r = 0 then None else Some 7.3)
      else Some (min (6.5 - log 10 (1 - r) / b_value) 7.3))"

subsection \<open>Fault segments\<close>

text \<open>
  \<open>str.split\<close> with a one-character separator, and \<open>lon, lat = map(float, pair.split(','))\<close>,
  which raises ValueError unless the text has exactly two fields that \<open>float\<close> accepts.
  \<open>py_float\<close> stands for \<open>float\<close> on text: \<open>None\<close> where it raises.
\<close>

fun split_on :: "char \<Rightarrow> string \<Rightarrow> string list" where
  "split_on sep [] = [[]]"
| "split_on sep (c # cs) =
     (if c = sep then [] # split_on sep cs
      else (case split_on sep cs of [] \<Rightarrow> [[c]] | w # ws \<Rightarrow> (c # w) # ws))"

definition parse_pair :: "(string \<Rightarrow> real option) \<Rightarrow> string \<Rightarrow> error + (real \<times> real)" where
  "parse_pair py_float pair =
     (case split_on CHR '','' pair of
        [a, b] \<Rightarrow> (case (py_float a, py_float b) of
                     (Some lon, Some lat) \<Rightarrow> Inr (lon, lat)
                   | _ \<Rightarrow> Inl ValueError)
      | _ \<Rightarrow> Inl ValueError)"

fun parse_pairs :: "(string \<Rightarrow> real option) \<Rightarrow> string list \<Rightarrow> error + (real \<times> real) list" where
  "parse_pairs py_float [] = Inr []"
| "parse_pairs py_float (pair # pairs) =
     (case parse_pair py_float pair of
        Inl e \<Rightarrow> Inl e
      | Inr c \<Rightarrow> (case parse_pairs py_float pairs of
                   Inl e \<Rightarrow> Inl e
                 | Inr cs \<Rightarrow> Inr (c # cs)))"

text \<open>
  The haversine distance between two vertices \<open>(lon, lat)\<close>, in kilometres.
  \<^verbatim>\<open>
  lat1, lon1, lat2, lon2 = map(math.radians, [lat1, lon1, lat2, lon2])
  dlon = lon2 - lon1
  dlat = lat2 - lat1
  a = math.sin(dlat/2)**2 + math.cos(lat1) * math.cos(lat2) * math.sin(dlon/2)**2
  c = 2 * math.asin(math.sqrt(a))
  r = 6371
  distance = c * r
  \<close>
\<close>

definition radians :: "real \<Rightarrow> real" where
  "radians x = x * pi / 180"

definition distance :: "real \<times> real \<Rightarrow> real \<times> real \<Rightarrow> real" where
  "distance p q =
     (let lat1 = radians (snd p); lon1 = radians (fst p);
          lat2 = radians (snd q); lon2 = radians (fst q);
          dlon = lon2 - lon1;
          dlat = lat2 - lat1;
          a = (sin (dlat / 2))\<^sup>2 + cos lat1 * cos lat2 * (sin (dlon / 2))\<^sup>2;
          c = 2 * arcsin (sqrt a)
      in c * 6371)"

fun segment_length :: "(real \<times> real) list \<Rightarrow> real" where
  "segment_length (p # q # coords) = distance p q + segment_length (q # coords)"
| "segment_length coords = 0"

text \<open>
  \<open>rupture_length\<close> is \<open>None\<close> when the magnitude is NaN; a comparison with NaN is false.
\<close>

definition segment_can_host_rupture ::
  "(string \<Rightarrow> real option) \<Rightarrow> segment \<Rightarrow> real option \<Rightarrow> error + bool" where
  "segment_can_host_rupture py_float segment rupture_length =
     (case parse_pairs py_float (split_on CHR '';'' (coordinates segment)) of
        Inl e \<Rightarrow> Inl e
      | Inr coords \<Rightarrow>
          Inr (case rupture_length of None \<Rightarrow> False | Some l \<Rightarrow> segment_length coords \<ge> l))"

fun suitable_segments ::
  "(string \<Rightarrow> real option) \<Rightarrow> segment list \<Rightarrow> real option \<Rightarrow> error + segment list" where
  "suitable_segments py_float [] rupture_length = Inr []"
| "suitable_segments py_float (segment # fault_data) rupture_length =
     (case segment_can_host_rupture py_float segment rupture_length of
        Inl e \<Rightarrow> Inl e
      | Inr ok \<Rightarrow> (case suitable_segments py_float fault_data rupture_length of
                    Inl e \<Rightarrow> Inl e
                  | Inr rest \<Rightarrow> Inr (if ok then segment # rest else rest)))"

subsection \<open>Formatting\<close>

text \<open>\<open>str(n)\<close> of a non-negative integer, and the formats \<open>{n:02d}\<close> and \<open>{n:03d}\<close>.\<close>

fun str_nat :: "nat \<Rightarrow> string" where
  "str_nat n =
     (if n < 10 then [''0123456789'' ! n]
      else str_nat (n div 10) @ [''0123456789'' ! (n mod 10)])"

definition zero_pad :: "nat \<Rightarrow> nat \<Rightarrow> string" where
  "zero_pad w n = replicate (w - length (str_nat n)) CHR ''0'' @ str_nat n"

subsection \<open>One candidate event (step 2)\<close>

text \<open>The values drawn for the candidate with index \<open>i\<close>, in the order of the calls.\<close>

record physics_draws =
  mag_r :: real
  segment_k :: nat
  slip_variation :: real
  months_r :: real
  depth_r :: real
  rand_index_k :: nat
  lon_r :: real
  lat_r :: real

text \<open>
  The record built for index \<open>i\<close> and magnitude \<open>mag\<close> on the chosen segment, at the
  vertex \<open>(lon, lat)\<close>.
  \<open>strftime\<close> stands for \<open>(start_date + timedelta(days=d)).strftime("%Y-%m-%d %H:%M:%S")\<close>
  with \<open>start_date\<close> 2003-01-01.
  \<^verbatim>\<open>
  moment = 10 ** (1.5 * magnitude + 9.1)
  mu = 3.2e10
  avg_slip = moment / (mu * rupture_area * 1e6)
  slip_variation = np.random.lognormal(0, 0.3)
  slip = avg_slip * slip_variation
  months_offset = random.uniform(6, 12) * i
  origin_time = start_date + timedelta(days=months_offset * 30)
  synthetic = {'id': f"SYN_PHYS_{i+1:03d}", 'time': origin_time.strftime(...),
    'magnitude': magnitude, 'depth_km': random.uniform(5, 15),
    'segment_id': selected_segment['segment_id'],
    'rupture_length_km': rupture_length, 'rupture_width_km': rupture_width,
    'rupture_area_km2': rupture_area, 'avg_slip_m': avg_slip,
    'is_synthetic': 1, 'sample_weight': 0.5, 'method': 'physics',
    'strike': selected_segment['strike'], 'dip': selected_segment['dip'],
    'rake': selected_segment['rake']}
  degree_jitter = 0.045
  lon += random.uniform(-degree_jitter, degree_jitter)
  lat += random.uniform(-degree_jitter, degree_jitter)
  synthetic['longitude'] = lon
  synthetic['latitude'] = lat
  \<close>
\<close>

definition physics_event ::
  "(real \<Rightarrow> string) \<Rightarrow> nat \<Rightarrow> real \<Rightarrow> segment \<Rightarrow> physics_draws \<Rightarrow> real \<times> real \<Rightarrow> event" where
  "physics_event strftime i mag selected_segment d vertex =
     (let rupture_area = 10 powr (mag - 4.0);
          rupture_length = sqrt (rupture_area * 2);
          rupture_width = rupture_length / 2;
          moment = 10 powr (1.5 * mag + 9.1);
          mu = 32000000000;
          avg_slip = moment / (mu * rupture_area * 1000000);
          slip = avg_slip * slip_variation d;
          months_offset = uniform 6 12 (months_r d) * real i;
          degree_jitter = 0.045;
          lon = fst vertex + uniform (- degree_jitter) degree_jitter (lon_r d);
          lat = snd vertex + uniform (- degree_jitter) degree_jitter (lat_r d)
      in \<lparr>event_id = ''SYN_PHYS_'' @ zero_pad 3 (i + 1),
          time = strftime (months_offset * 30),
          magnitude = mag,
          longitude = lon,
          latitude = lat,
          depth_km = Some (uniform 5 15 (depth_r d)),
          is_synthetic = 1,
          sample_weight = 0.5,
          method_tag = ''physics'',
          log_energy = None,
          rupture_length_km = Some rupture_length,
          rupture_width_km = Some rupture_width,
          rupture_area_km2 = Some rupture_area,
          avg_slip_m = Some avg_slip,
          segment_id = Some (fault_segment_id selected_segment),
          strike = Some (fault_strike selected_segment),
          dip = Some (fault_dip selected_segment),
          rake = Some (fault_rake selected_segment),
          year = None,
          cv_fold = None\<rparr>)"

text \<open>
  One turn of the loop over \<open>enumerate(magnitudes)\<close>: \<open>Inr None\<close> is \<open>continue\<close>
  (no segment can host the rupture), \<open>Inl\<close> an exception from the coordinate text.
\<close>

definition physics_step ::
  "(string \<Rightarrow> real option) \<Rightarrow> (real \<Rightarrow> string) \<Rightarrow> segment list \<Rightarrow> nat \<Rightarrow> real option
     \<Rightarrow> physics_draws \<Rightarrow> error + event option" where
  "physics_step py_float strftime fault_data i mag d =
     (let rupture_length = map_option (\<lambda>m. sqrt (10 powr (m - 4.0) * 2)) mag
      in case suitable_segments py_float fault_data rupture_length of
           Inl e \<Rightarrow> Inl e
         | Inr suitable \<Rightarrow>
             (case mag of
                None \<Rightarrow> Inr None
              | Some m \<Rightarrow>
                  if suitable = [] then Inr None
                  else
                    let selected_segment = choice suitable (segment_k d);
                        coord_pairs = split_on CHR '';'' (coordinates selected_segment);
                        rand_index = randint 0 (length coord_pairs - 1) (rand_index_k d)
                    in (case parse_pair py_float (coord_pairs ! rand_index) of
                          Inl e \<Rightarrow> Inl e
                        | Inr vertex \<Rightarrow>
                            Inr (Some (physics_event strftime i m selected_segment d vertex)))))"

fun physics_loop ::
  "(string \<Rightarrow> real option) \<Rightarrow> (real \<Rightarrow> string) \<Rightarrow> segment list \<Rightarrow> real
     \<Rightarrow> (nat \<Rightarrow> physics_draws) \<Rightarrow> nat list \<Rightarrow> error + (event list \<times> message list)" where
  "physics_loop py_float strftime fault_data b_value draws [] = Inr ([], [])"
| "physics_loop py_float strftime fault_data b_value draws (i # is) =
     (case physics_step py_float strftime fault_data i
             (sample_magnitude b_value (mag_r (draws i))) (draws i) of
        Inl e \<Rightarrow> Inl e
      | Inr ev \<Rightarrow>
          (case physics_loop py_float strftime fault_data b_value draws is of
             Inl e \<Rightarrow> Inl e
           | Inr (evs, msgs) \<Rightarrow>
               (case ev of
                  None \<Rightarrow> Inr (evs, No_suitable_segment i # msgs)
                | Some e \<Rightarrow> Inr (e # evs, msgs))))"

text \<open>
  The whole script, with \<open>n_synthetics = 20\<close>. The b-value is read from
  \<open>b_value.txt\<close>, with 1.15 when the file is missing or \<open>float\<close> rejects its text.
\<close>

definition n_synthetics :: nat where
  "n_synthetics = 20"

definition read_b_value :: "(string \<Rightarrow> real option) \<Rightarrow> store \<Rightarrow> real" where
  "read_b_value py_float st =
     (case b_value_txt st of
        None \<Rightarrow> 1.15
      | Some txt \<Rightarrow> (case py_float txt of None \<Rightarrow> 1.15 | Some b \<Rightarrow> b))"

definition generate_physics_snapshots ::
  "(string \<Rightarrow> real option) \<Rightarrow> (real \<Rightarrow> string) \<Rightarrow> (nat \<Rightarrow> physics_draws) \<Rightarrow> store
     \<Rightarrow> error + (event list option \<times> store \<times> message list)" where
  "generate_physics_snapshots py_float strftime draws st =
     (case marmara_faults st of
        None \<Rightarrow> Inl FileNotFoundError
      | Some fault_data \<Rightarrow>
          (case processed_earthquakes st of
             None \<Rightarrow> Inl FileNotFoundError
           | Some eq_data \<Rightarrow>
               (case physics_loop py_float strftime fault_data (read_b_value py_float st)
                       draws [0..<n_synthetics] of
                  Inl e \<Rightarrow> Inl e
                | Inr (synthetic_events, msgs) \<Rightarrow>
                    if synthetic_events \<noteq> []
                    then let synthetics_df = sanity_check synthetic_events
                         in Inr (Some synthetics_df,
                                 st\<lparr>synthetic_physics_snapshots_v1 := Some synthetics_df\<rparr>,
                                 msgs @ sanity_report synthetic_events)
                    else Inr (None, st, msgs @ [No_synthetic_events]))))"

section \<open>Simple strategy (generate_simple_synthetics)\<close>

text \<open>The values drawn in iteration \<open>i\<close>, in the order of the calls.\<close>

record simple_draws =
  template_k :: nat
  magnitude_r :: real
  longitude_r :: real
  latitude_r :: real
  depth_km_r :: real
  year_k :: nat
  month_k :: nat
  day_k :: nat
  hour_k :: nat
  minute_k :: nat
  second_k :: nat

text \<open>
  \<^verbatim>\<open>
  magnitude = random.uniform(6.5, 7.3)
  longitude = template['longitude'] + random.uniform(-0.3, 0.3)
  latitude = template['latitude'] + random.uniform(-0.2, 0.2)
  longitude = max(26.0, min(30.5, longitude))
  latitude = max(39.5, min(41.5, latitude))
  depth = random.uniform(5, 20)
  synthetic = {'id': f"SYN_SIMPLE_{i+1:03d}", 'longitude': longitude, 'latitude': latitude,
    'depth_km': depth, 'magnitude': magnitude, 'is_synthetic': 1, 'sample_weight': 0.2,
    'method': 'simple'}
  year = random.randint(2003, 2025); month = random.randint(1, 12)
  day = random.randint(1, 28); hour = random.randint(0, 23)
  minute = random.randint(0, 59); second = random.randint(0, 59)
  timestamp = f"{year}-{month:02d}-{day:02d} {hour:02d}:{minute:02d}:{second:02d}"
  synthetic['time'] = timestamp
  area = 10 ** (magnitude - 4.0)
  length = np.sqrt(area * 2)
  width = length / 2
  synthetic['rupture_length_km'] = length
  synthetic['rupture_width_km'] = width
  synthetic['rupture_area_km2'] = area
  \<close>
\<close>

definition simple_event :: "nat \<Rightarrow> event \<Rightarrow> simple_draws \<Rightarrow> event" where
  "simple_event i template d =
     (let mag = uniform 6.5 7.3 (magnitude_r d);
          lon = longitude template + uniform (- 0.3) 0.3 (longitude_r d);
          lat = latitude template + uniform (- 0.2) 0.2 (latitude_r d);
          lon = max 26.0 (min 30.5 lon);
          lat = max 39.5 (min 41.5 lat);
          depth = uniform 5 20 (depth_km_r d);
          timestamp =
            str_nat (randint 2003 2025 (year_k d)) @ ''-'' @
            zero_pad 2 (randint 1 12 (month_k d)) @ ''-'' @
            zero_pad 2 (randint 1 28 (day_k d)) @ '' '' @
            zero_pad 2 (randint 0 23 (hour_k d)) @ '':'' @
            zero_pad 2 (randint 0 59 (minute_k d)) @ '':'' @
            zero_pad 2 (randint 0 59 (second_k d));
          area = 10 powr (mag - 4.0);
          length = sqrt (area * 2);
          width = length / 2
      in \<lparr>event_id = ''SYN_SIMPLE_'' @ zero_pad 3 (i + 1),
          time = timestamp,
          magnitude = mag,
          longitude = lon,
          latitude = lat,
          depth_km = Some depth,
          is_synthetic = 1,
          sample_weight = 0.2,
          method_tag = ''simple'',
          log_energy = None,
          rupture_length_km = Some length,
          rupture_width_km = Some width,
          rupture_area_km2 = Some area,
          avg_slip_m = None,
          segment_id = None,
          strike = None,
          dip = None,
          rake = None,
          year = None,
          cv_fold = None\<rparr>)"

text \<open>
  The whole script, with \<open>n_synthetic = 10\<close>. \<open>templates.sample(1)\<close> raises ValueError on
  an empty table, in the first iteration. The table is written as built: this script has
  no sanity check.
\<close>

definition n_synthetic :: nat where
  "n_synthetic = 10"

definition simple_synthetic_events :: "event list \<Rightarrow> (nat \<Rightarrow> simple_draws) \<Rightarrow> event list" where
  "simple_synthetic_events templates draws =
     map (\<lambda>i. simple_event i (choice templates (template_k (draws i))) (draws i))
       [0..<n_synthetic]"

definition generate_simple_synthetics ::
  "(nat \<Rightarrow> simple_draws) \<Rightarrow> store \<Rightarrow> error + (event list \<times> store)" where
  "generate_simple_synthetics draws st =
     (case combined_dataset_v1 st of
        None \<Rightarrow> Inl FileNotFoundError
      | Some all_data \<Rightarrow>
          let templates = filter (\<lambda>e. magnitude e \<ge> 5.0) all_data
          in if templates = [] then Inl ValueError
             else
               let synthetics_df = simple_synthetic_events templates draws
               in Inr (synthetics_df, st\<lparr>synthetic_simple_v1 := Some synthetics_df\<rparr>))"

section \<open>Catalog assembly (assemble_dataset, finalize_dataset)\<close>

text \<open>
  \<^verbatim>\<open>
  all_data['cv_fold'] = -1
  for fold_idx, (start_year, end_year) in enumerate(fold_years):
      mask = (all_data['year'] >= start_year) & (all_data['year'] <= end_year)
      all_data.loc[mask, 'cv_fold'] = fold_idx
  \<close>
\<close>

definition fold_years :: "(int \<times> int) list" where
  "fold_years =
     [(2003, 2005), (2006, 2008), (2009, 2011),
      (2012, 2014), (2015, 2017), (2018, 2020),
      (2021, 2025)]"

definition cv_fold_of :: "int option \<Rightarrow> int" where
  "cv_fold_of yr =
     foldl (\<lambda>cv (fold_idx, (start_year, end_year)).
              if (case yr of None \<Rightarrow> False | Some y \<Rightarrow> y \<ge> start_year \<and> y \<le> end_year)
              then int fold_idx else cv)
       (- 1) (enumerate 0 fold_years)"

definition with_year_and_fold :: "(string \<Rightarrow> int option) \<Rightarrow> event \<Rightarrow> event" where
  "with_year_and_fold to_year e =
     e\<lparr>year := to_year (time e), cv_fold := Some (cv_fold_of (to_year (time e)))\<rparr>"

text \<open>
  \<open>pd.concat\<close> of the tables read from the files, then the year and the fold of every
  row. The summary and the plots drawn before the table is written are left out: the
  definitions describe the runs in which they do not raise. The tables written by
  \<open>prepare_marmara_catalog\<close> carry \<open>is_synthetic\<close>, \<open>sample_weight\<close> and \<open>method\<close>, so
  the three defaults for a real catalog without those columns do not apply.
\<close>

definition combine :: "(string \<Rightarrow> int option) \<Rightarrow> event list list \<Rightarrow> error + event list" where
  "combine to_year tables =
     (let all_data = concat tables
      in if \<exists>e \<in> set all_data. to_year (time e) = None then Inl ParserError
         else Inr (map (with_year_and_fold to_year) all_data))"

definition assemble_dataset ::
  "(string \<Rightarrow> int option) \<Rightarrow> store \<Rightarrow> error + (event list \<times> store)" where
  "assemble_dataset to_year st =
     (case processed_earthquakes st of
        None \<Rightarrow> Inl FileNotFoundError
      | Some real_data \<Rightarrow>
          (case synthetic_bootstrap_v1 st of
             None \<Rightarrow> Inl FileNotFoundError
           | Some bootstrap_data \<Rightarrow>
               (case synthetic_physics_snapshots_v1 st of
                  None \<Rightarrow> Inl FileNotFoundError
                | Some physics_data \<Rightarrow>
                    (case combine to_year [real_data, bootstrap_data, physics_data] of
                       Inl e \<Rightarrow> Inl e
                     | Inr all_data \<Rightarrow>
                         Inr (all_data, st\<lparr>combined_dataset_v1 := Some all_data\<rparr>)))))"

definition finalize_dataset ::
  "(string \<Rightarrow> int option) \<Rightarrow> store \<Rightarrow> error + (event list \<times> store)" where
  "finalize_dataset to_year st =
     (case processed_earthquakes st of
        None \<Rightarrow> Inl FileNotFoundError
      | Some real_data \<Rightarrow>
          (case synthetic_bootstrap_v1 st of
             None \<Rightarrow> Inl FileNotFoundError
           | Some bootstrap_data \<Rightarrow>
               (case synthetic_physics_snapshots_v1 st of
                  None \<Rightarrow> Inl FileNotFoundError
                | Some physics_data \<Rightarrow>
                    (case synthetic_simple_v1 st of
                       None \<Rightarrow> Inl FileNotFoundError
                     | Some simple_data \<Rightarrow>
                         (case combine to_year
                                 [real_data, bootstrap_data, physics_data, simple_data] of
                            Inl e \<Rightarrow> Inl e
                          | Inr all_data \<Rightarrow>
                              Inr (all_data, st\<lparr>final_dataset_v1 := Some all_data\<rparr>))))))"

text \<open>A row with the two columns that assembly adds blanked out.\<close>

definition without_year_and_fold :: "event \<Rightarrow> event" where
  "without_year_and_fold e = e\<lparr>year := None, cv_fold := None\<rparr>"

section \<open>The b-value estimator (analyze_earthquake_catalog)\<close>

text \<open>
  \<^verbatim>\<open>
  def estimate_b_value(magnitudes, m_min):
      mags = magnitudes[magnitudes >= m_min]
      if len(mags) < 2:
          return None, None
      mean_mag = np.mean(mags)
      b_value = np.log10(np.e) / (mean_mag - m_min)
      uncertainty = 2.3 * b_value / np.sqrt(len(mags))
      return b_value, uncertainty
  \<close>
  When every selected magnitude equals \<open>m_min\<close> the divisor is zero; numpy then returns
  \<open>inf\<close> for the b-value, and so for the uncertainty: \<open>Estimate_inf\<close>.
\<close>

datatype b_estimate = Undetermined | Estimate real real | Estimate_inf

definition estimate_b_value :: "real list \<Rightarrow> real \<Rightarrow> b_estimate" where
  "estimate_b_value magnitudes m_min =
     (let mags = filter (\<lambda>m. m \<ge> m_min) magnitudes
      in if length mags < 2 then Undetermined
         else
           let mean_mag = sum_list mags / real (length mags)
           in if mean_mag - m_min = 0 then Estimate_inf
              else
                let b_value = log 10 (exp 1) / (mean_mag - m_min);
                    uncertainty = 2.3 * b_value / sqrt (real (length mags))
                in Estimate b_value uncertainty)"

section \<open>Example inputs\<close>

text \<open>
  A row of \<open>processed_earthquakes.csv\<close> as \<open>prepare_marmara_catalog\<close> writes it: a real
  event with \<open>log_energy = 1.5 * magnitude + 4.8\<close>, here in March 2010 near Istanbul.
\<close>

definition catalog_row :: "string \<Rightarrow> real \<Rightarrow> real \<Rightarrow> event" where
  "catalog_row ident mag depth =
     \<lparr>event_id = ident, time = ''2010-03-04 05:06:07'', magnitude = mag,
      longitude = 28.0, latitude = 40.7, depth_km = Some depth, is_synthetic = 0,
      sample_weight = 1.0, method_tag = ''real'', log_energy = Some (1.5 * mag + 4.8),
      rupture_length_km = None, rupture_width_km = None, rupture_area_km2 = None,
      avg_slip_m = None, segment_id = None, strike = None, dip = None, rake = None,
      year = Some 2010, cv_fold = None\<rparr>"

definition template_M50 :: event where
  "template_M50 = catalog_row ''EQ_000001'' 5.0 10.0"

definition template_M52 :: event where
  "template_M52 = catalog_row ''EQ_000002'' 5.2 10.0"

definition template_M59 :: event where
  "template_M59 = catalog_row ''EQ_000003'' 5.9 10.0"

text \<open>
  An instance of \<open>pd.to_datetime(...).dt.year\<close> that is right for the example rows (all
  of 2010), and the files before an assembly run.
\<close>

definition to_year_2010 :: "string \<Rightarrow> int option" where
  "to_year_2010 s = Some 2010"

definition files_for_assembly :: store where
  "files_for_assembly =
     \<lparr>processed_earthquakes = Some [template_M52, catalog_row ''EQ_000004'' 3.4 7.0],
      marmara_faults = None,
      b_value_txt = None,
      synthetic_bootstrap_v1 = Some [bootstrap_event template_M52 (5 / 8)],
      synthetic_physics_snapshots_v1 = Some [],
      combined_dataset_v1 = None,
      synthetic_simple_v1 = Some [],
      final_dataset_v1 = None\<rparr>"

text \<open>
  A fault table row whose trace runs along the equator from 0E to 180E (half of a great
  circle, about 20015 km), the draws of one candidate, and an instance of \<open>strftime\<close>
  that is right for a zero offset; the examples do not depend on the time text.
\<close>

definition example_segment :: segment where
  "example_segment =
     \<lparr>fault_segment_id = ''EQUATOR_EAST'', fault_name = ''Equator, 0E to 180E'',
      coordinates = ''0,0;180,0'', fault_strike = 270, fault_dip = 80, fault_rake = 175,
      length_km = 20015, seismogenic_thickness_km = 15\<rparr>"

definition example_physics_draws :: physics_draws where
  "example_physics_draws =
     \<lparr>mag_r = 0, segment_k = 0, slip_variation = 2, months_r = 1 / 2, depth_r = 1 / 2,
      rand_index_k = 0, lon_r = 1 / 2, lat_r = 1 / 2\<rparr>"

definition strftime_start :: "real \<Rightarrow> string" where
  "strftime_start days = ''2003-01-01 00:00:00''"

text \<open>
  Two sequences of draws (every \<open>random.random()\<close> returns 5/8, or 7/8), and the files
  when only the catalog exists.
\<close>

definition draws_5_8 :: "nat \<Rightarrow> real" where
  "draws_5_8 k = 5 / 8"

definition draws_7_8 :: "nat \<Rightarrow> real" where
  "draws_7_8 k = 7 / 8"

definition catalog_only :: "event list \<Rightarrow> store" where
  "catalog_only eq_data =
     \<lparr>processed_earthquakes = Some eq_data,
      marmara_faults = None,
      b_value_txt = None,
      synthetic_bootstrap_v1 = None,
      synthetic_physics_snapshots_v1 = None,
      combined_dataset_v1 = None,
      synthetic_simple_v1 = None,
      final_dataset_v1 = None\<rparr>"

text \<open>
  An instance of \<open>float\<close> for the two numbers in the example trace, the same draws for
  every candidate, the twenty events they give (magnitude 6.5, every one on the example
  segment at its first vertex), and the files before a physics run.
\<close>

definition py_float_small :: "string \<Rightarrow> real option" where
  "py_float_small s = (if s = ''0'' then Some 0 else if s = ''180'' then Some 180 else None)"

definition same_physics_draws :: "nat \<Rightarrow> physics_draws" where
  "same_physics_draws i = example_physics_draws"

definition example_physics_events :: "event list" where
  "example_physics_events =
     map (\<lambda>i. physics_event strftime_start i 6.5 example_segment example_physics_draws (0, 0))
       [0..<n_synthetics]"

definition catalog_and_faults :: store where
  "catalog_and_faults =
     (catalog_only [template_M52, catalog_row ''EQ_000004'' 3.4 7.0])
       \<lparr>marmara_faults := Some [example_segment]\<rparr>"

text \<open>
  The draws of one iteration of the simple strategy, the same draws for every iteration,
  and the files when only the combined dataset exists.
\<close>

definition example_simple_draws :: simple_draws where
  "example_simple_draws =
     \<lparr>template_k = 0, magnitude_r = 1 / 2, longitude_r = 1 / 2, latitude_r = 1 / 2,
      depth_km_r = 1 / 3, year_k = 7, month_k = 2, day_k = 3, hour_k = 5, minute_k = 6,
      second_k = 7\<rparr>"

definition same_simple_draws :: "nat \<Rightarrow> simple_draws" where
  "same_simple_draws i = example_simple_draws"

definition combined_only :: "event list \<Rightarrow> store" where
  "combined_only all_data = (catalog_only [])\<lparr>combined_dataset_v1 := Some all_data\<rparr>"

text \<open>
  A real event below magnitude 5, which is no template for any strategy, the files with
  that catalog and an empty fault table, and a template whose depth cell is empty in the
  catalog.
\<close>

definition small_event :: event where
  "small_event = catalog_row ''EQ_000004'' 3.4 7.0"

definition catalog_and_no_faults :: store where
  "catalog_and_no_faults = (catalog_only [small_event])\<lparr>marmara_faults := Some []\<rparr>"

definition template_no_depth :: event where
  "template_no_depth = (catalog_row ''EQ_000005'' 5.2 10.0)\<lparr>depth_km := None\<rparr>"

section \<open>Properties\<close>

text \<open>
  C7. With a positive b-value and a uniform variate in [0, 1), the sampler of the physics
  strategy returns the number \<open>min (6.5 - log10 (1 - r) / b) 7.3\<close>, and that magnitude
  lies between the floor 6.5 and the cap 7.3.
\<close>

theorem sample_magnitude_bounds:
  assumes "0 \<le> r" and "r < 1" and "0 < b_value"
  shows "\<exists>M. sample_magnitude b_value r = Some M \<and>
             M = min (6.5 - log 10 (1 - r) / b_value) 7.3 \<and> 6.5 \<le> M \<and> M \<le> 7.3"
proof -
  have "log 10 (1 - r) \<le> 0"
    using assms(1,2) by (simp add: zero_less_one)
  then have "log 10 (1 - r) / b_value \<le> 0"
    using assms(3) by (simp add: divide_le_0_iff)
  then have "(6.5::real) \<le> 6.5 - log 10 (1 - r) / b_value"
    by linarith
  then show ?thesis
    using assms(3) unfolding sample_magnitude_def min_def by auto
qed

theorem sample_magnitude_bounds_witness:
  "(0::real) \<le> 9 / 10 \<and> (9 / 10 :: real) < 1 \<and> (0::real) < 1 \<and>
   (\<exists>M. sample_magnitude 1 (9 / 10) = Some M \<and>
        M = min (6.5 - log 10 (1 - 9 / 10) / 1) 7.3 \<and> 6.5 \<le> M \<and> M \<le> 7.3)"
proof -
  have "(0::real) \<le> 9 / 10" and "(9 / 10 :: real) < 1" and "(0::real) < 1"
    by simp_all
  then show ?thesis
    using sample_magnitude_bounds [of "9 / 10" 1] by blast
qed

subsection \<open>Auxiliary facts\<close>

lemma uniform_bounds:
  assumes "a \<le> b" "0 \<le> r" "r < 1"
  shows "a \<le> uniform a b r" and "uniform a b r \<le> b"
proof -
  have "0 \<le> (b - a) * r"
    using assms by simp
  then show "a \<le> uniform a b r"
    by (simp add: uniform_def)
  have "(b - a) * r \<le> (b - a) * 1"
    using assms by (intro mult_left_mono) auto
  then show "uniform a b r \<le> b"
    by (simp add: uniform_def)
qed

lemma uniform_less:
  assumes "a < b" "r < 1"
  shows "uniform a b r < b"
proof -
  have "(b - a) * r < (b - a) * 1"
    using assms by (intro mult_strict_left_mono) auto
  then show ?thesis
    by (simp add: uniform_def)
qed

lemma sanity_check_filter: "sanity_check df = filter (\<lambda>e. \<not> invalid_event e) df"
proof (cases "filter invalid_event df = []")
  case True
  then have "\<forall>e \<in> set df. \<not> invalid_event e"
    by (simp add: filter_empty_conv)
  then have "filter (\<lambda>e. \<not> invalid_event e) df = df"
    by simp
  with True show ?thesis
    by (simp add: sanity_check_def)
next
  case False
  have "filter (\<lambda>e. e \<notin> set (filter invalid_event df)) df = filter (\<lambda>e. \<not> invalid_event e) df"
    by (rule filter_cong) auto
  with False show ?thesis
    by (simp add: sanity_check_def Let_def)
qed

lemma area_law_length_bound:
  assumes "m \<le> 7.3"
  shows "sqrt (10 powr (m - 4.0) * 2) < 200"
proof -
  have "(10::real) powr (m - 4.0) \<le> 10 powr 4"
    using assms by (intro powr_mono) auto
  also have "(10::real) powr 4 = 10000"
    by simp
  finally have "10 powr (m - 4.0) * 2 \<le> (20000::real)"
    by simp
  then have "sqrt (10 powr (m - 4.0) * 2) \<le> sqrt 20000"
    by (rule real_sqrt_le_mono)
  also have "sqrt 20000 < sqrt (200\<^sup>2)"
    by (rule real_sqrt_less_mono) simp
  also have "sqrt (200\<^sup>2) = (200::real)"
    by simp
  finally show ?thesis .
qed

lemma cube_root_10: "(2::real) < 10 powr (1 / 3)"
proof -
  have "(10 powr (1 / 3)) ^ 3 = (10 powr (1 / 3)) powr (3::real)"
    by (simp add: powr_numeral)
  also have "\<dots> = (10::real)"
    by (simp add: powr_powr)
  finally have "(2::real) ^ 3 < (10 powr (1 / 3)) ^ 3"
    by simp
  then show ?thesis
    by (rule power_less_imp_less_base) simp
qed

lemma wells_coppersmith_length_M81: "(200::real) < 10 powr (- 2.44 + 0.59 * 8.1)"
proof -
  have "(10::real) powr (1 / 3) \<le> 10 powr (339 / 1000)"
    by (intro powr_mono) auto
  with cube_root_10 have "(2::real) < 10 powr (339 / 1000)"
    by linarith
  moreover have "- 2.44 + 0.59 * 8.1 = 2 + (339 / 1000 :: real)"
    by simp
  then have "(10::real) powr (- 2.44 + 0.59 * 8.1) = 10 powr 2 * 10 powr (339 / 1000)"
    by (simp only: powr_add)
  moreover have "(10::real) powr 2 = 100"
    by simp
  ultimately show ?thesis
    by simp
qed

lemma bootstrap_event_magnitude:
  "magnitude (bootstrap_event tmpl r) = magnitude tmpl + uniform 1.5 2.3 r"
  by (simp add: bootstrap_event_def Let_def)

subsection \<open>Bootstrap magnitudes\<close>

text \<open>
  C9 (as amended). For a template with \<open>5.0 \<le> magnitude < 6.0\<close> and a draw in [0, 1), the
  magnitude of the bootstrap event lies in the half-open interval from 6.5 (included) to
  8.3 (excluded); and for every template above 5.0 some draw gives a magnitude above the
  cap 7.3 of the other two strategies.
\<close>

theorem bootstrap_magnitude_range:
  assumes "5.0 \<le> magnitude tmpl" and "magnitude tmpl < 6.0" and "0 \<le> r" and "r < 1"
  shows "6.5 \<le> magnitude (bootstrap_event tmpl r) \<and> magnitude (bootstrap_event tmpl r) < 8.3
         \<and> (5.0 < magnitude tmpl \<longrightarrow>
              (\<exists>r'. 0 \<le> r' \<and> r' < 1 \<and> 7.3 < magnitude (bootstrap_event tmpl r')))"
proof -
  have lo: "1.5 \<le> uniform 1.5 2.3 r"
    using uniform_bounds(1) [of "1.5" "2.3" r] assms(3,4) by simp
  have hi: "uniform 1.5 2.3 r < 2.3"
    using uniform_less [of "1.5" "2.3" r] assms(4) by simp
  have ex: "\<exists>r'. 0 \<le> r' \<and> r' < 1 \<and> 7.3 < magnitude (bootstrap_event tmpl r')"
    if "5.0 < magnitude tmpl"
  proof (intro exI conjI)
    show "0 \<le> 1 - (magnitude tmpl - 5) / 1.6"
      using assms(2) by (simp add: field_simps)
    show "1 - (magnitude tmpl - 5) / 1.6 < 1"
      using that by (simp add: field_simps)
    show "7.3 < magnitude (bootstrap_event tmpl (1 - (magnitude tmpl - 5) / 1.6))"
      using that by (simp add: bootstrap_event_magnitude uniform_def field_simps)
  qed
  have "6.5 \<le> magnitude (bootstrap_event tmpl r)"
    using lo assms(1) by (simp add: bootstrap_event_magnitude)
  moreover have "magnitude (bootstrap_event tmpl r) < 8.3"
    using hi assms(2) by (simp add: bootstrap_event_magnitude)
  ultimately show ?thesis
    using ex by blast
qed

theorem bootstrap_magnitude_range_witness:
  "5.0 \<le> magnitude template_M52 \<and> magnitude template_M52 < 6.0 \<and> 5.0 < magnitude template_M52 \<and>
   (0::real) \<le> 5 / 8 \<and> (5 / 8 :: real) < 1 \<and>
   6.5 \<le> magnitude (bootstrap_event template_M52 (5 / 8)) \<and>
   magnitude (bootstrap_event template_M52 (5 / 8)) < 8.3 \<and>
   (\<exists>r'. 0 \<le> r' \<and> r' < 1 \<and> 7.3 < magnitude (bootstrap_event template_M52 r'))"
  using bootstrap_magnitude_range [of template_M52 "5 / 8"]
  by (simp add: template_M52_def catalog_row_def)

text \<open>
  The lower bound is attained: the template of magnitude 5.0 with the draw 0 gives
  exactly 6.5, so the magnitude is not strictly above 6.5.
\<close>

theorem bootstrap_magnitude_not_strict:
  "5.0 \<le> magnitude template_M50 \<and> magnitude template_M50 < 6.0 \<and>
   (0::real) \<le> 0 \<and> (0::real) < 1 \<and>
   \<not> (6.5 < magnitude (bootstrap_event template_M50 0))"
  by (simp add: bootstrap_event_magnitude uniform_def template_M50_def catalog_row_def)

subsection \<open>Catalog assembly\<close>

lemma combine_cases:
  "(case combine to_year tables of
      Inl e \<Rightarrow> e = ParserError \<and> (\<exists>ev \<in> set (concat tables). to_year (time ev) = None)
    | Inr all_data \<Rightarrow>
        length all_data = sum_list (map length tables) \<and>
        map without_year_and_fold all_data = map without_year_and_fold (concat tables))"
  by (auto simp: combine_def Let_def length_concat with_year_and_fold_def
      without_year_and_fold_def)

text \<open>
  C8. When the input files exist, \<open>assemble_dataset\<close> and \<open>finalize_dataset\<close> either
  stop at a time that cannot be parsed or return a table with one row per input row:
  its length is the sum of the input lengths, and its rows are the input rows in order,
  with only \<open>year\<close> and \<open>cv_fold\<close> filled in. That table is the one written.
\<close>

theorem assembly_keeps_every_row:
  "(processed_earthquakes st = Some real_data \<and>
    synthetic_bootstrap_v1 st = Some bootstrap_data \<and>
    synthetic_physics_snapshots_v1 st = Some physics_data \<longrightarrow>
      (case assemble_dataset to_year st of
         Inl e \<Rightarrow> e = ParserError \<and>
           (\<exists>ev \<in> set (real_data @ bootstrap_data @ physics_data). to_year (time ev) = None)
       | Inr (all_data, st') \<Rightarrow>
           length all_data = length real_data + length bootstrap_data + length physics_data \<and>
           map without_year_and_fold all_data
             = map without_year_and_fold (real_data @ bootstrap_data @ physics_data) \<and>
           combined_dataset_v1 st' = Some all_data)) \<and>
   (processed_earthquakes st = Some real_data \<and>
    synthetic_bootstrap_v1 st = Some bootstrap_data \<and>
    synthetic_physics_snapshots_v1 st = Some physics_data \<and>
    synthetic_simple_v1 st = Some simple_data \<longrightarrow>
      (case finalize_dataset to_year st of
         Inl e \<Rightarrow> e = ParserError \<and>
           (\<exists>ev \<in> set (real_data @ bootstrap_data @ physics_data @ simple_data).
              to_year (time ev) = None)
       | Inr (all_data, st') \<Rightarrow>
           length all_data = length real_data + length bootstrap_data + length physics_data
             + length simple_data \<and>
           map without_year_and_fold all_data
             = map without_year_and_fold
                 (real_data @ bootstrap_data @ physics_data @ simple_data) \<and>
           final_dataset_v1 st' = Some all_data))"
proof (intro conjI impI)
  assume files: "processed_earthquakes st = Some real_data \<and>
    synthetic_bootstrap_v1 st = Some bootstrap_data \<and>
    synthetic_physics_snapshots_v1 st = Some physics_data"
  show "case assemble_dataset to_year st of
         Inl e \<Rightarrow> e = ParserError \<and>
           (\<exists>ev \<in> set (real_data @ bootstrap_data @ physics_data). to_year (time ev) = None)
       | Inr (all_data, st') \<Rightarrow>
           length all_data = length real_data + length bootstrap_data + length physics_data \<and>
           map without_year_and_fold all_data
             = map without_year_and_fold (real_data @ bootstrap_data @ physics_data) \<and>
           combined_dataset_v1 st' = Some all_data"
    using files combine_cases [where to_year = to_year and tables = "[real_data, bootstrap_data, physics_data]"]
    by (auto simp: assemble_dataset_def split: sum.splits)
next
  assume files: "processed_earthquakes st = Some real_data \<and>
    synthetic_bootstrap_v1 st = Some bootstrap_data \<and>
    synthetic_physics_snapshots_v1 st = Some physics_data \<and>
    synthetic_simple_v1 st = Some simple_data"
  show "case finalize_dataset to_year st of
         Inl e \<Rightarrow> e = ParserError \<and>
           (\<exists>ev \<in> set (real_data @ bootstrap_data @ physics_data @ simple_data).
              to_year (time ev) = None)
       | Inr (all_data, st') \<Rightarrow>
           length all_data = length real_data + length bootstrap_data + length physics_data
             + length simple_data \<and>
           map without_year_and_fold all_data
             = map without_year_and_fold
                 (real_data @ bootstrap_data @ physics_data @ simple_data) \<and>
           final_dataset_v1 st' = Some all_data"
    using files
      combine_cases [where to_year = to_year and tables = "[real_data, bootstrap_data, physics_data, simple_data]"]
    by (auto simp: finalize_dataset_def split: sum.splits)
qed

theorem assembly_keeps_every_row_witness:
  "(\<exists>all_data st'. assemble_dataset to_year_2010 files_for_assembly = Inr (all_data, st') \<and>
      length all_data = 3 \<and> combined_dataset_v1 st' = Some all_data) \<and>
   (\<exists>all_data st'. finalize_dataset to_year_2010 files_for_assembly = Inr (all_data, st') \<and>
      length all_data = 3 \<and> final_dataset_v1 st' = Some all_data)"
  using assembly_keeps_every_row [where st = files_for_assembly
      and real_data = "[template_M52, catalog_row ''EQ_000004'' 3.4 7.0]"
      and bootstrap_data = "[bootstrap_event template_M52 (5 / 8)]"
      and physics_data = "[]" and simple_data = "[]" and to_year = to_year_2010]
  by (auto simp: files_for_assembly_def to_year_2010_def split: sum.splits prod.splits)

subsection \<open>Slip of a physics event\<close>

lemma physics_event_avg_slip:
  "avg_slip_m (physics_event strftime i mag seg d vertex)
     = Some (10 powr (1.5 * mag + 9.1) / (32000000000 * 10 powr (mag - 4.0) * 1000000))"
  by (simp add: physics_event_def Let_def)

text \<open>
  C2. The claim says that the stored \<open>avg_slip_m\<close> carries the log-normal scatter. The
  script computes \<open>slip = avg_slip * slip_variation\<close> and then stores \<open>avg_slip\<close>: at
  magnitude 7.0 with a scatter factor 2 the stored value is the unscattered quotient
  \<open>moment / (mu * area_m2)\<close>, not twice it.
\<close>

theorem physics_avg_slip_without_scatter:
  "slip_variation example_physics_draws = 2 \<and>
   avg_slip_m (physics_event strftime_start 0 7.0 example_segment example_physics_draws (0, 0))
     = Some (10 powr (1.5 * 7.0 + 9.1) / (32000000000 * 10 powr (7.0 - 4.0) * 1000000)) \<and>
   avg_slip_m (physics_event strftime_start 0 7.0 example_segment example_physics_draws (0, 0))
     \<noteq> Some (10 powr (1.5 * 7.0 + 9.1) / (32000000000 * 10 powr (7.0 - 4.0) * 1000000)
               * slip_variation example_physics_draws)"
proof -
  have "(0::real) < 10 powr (1.5 * 7.0 + 9.1) / (32000000000 * 10 powr (7.0 - 4.0) * 1000000)"
    by simp
  then show ?thesis
    by (simp add: physics_event_avg_slip example_physics_draws_def)
qed

subsection \<open>The b-value estimator\<close>

lemma mean_ge_m_min:
  fixes mags :: "real list"
  assumes "\<forall>m \<in> set mags. m_min \<le> m" and "mags \<noteq> []"
  shows "m_min \<le> sum_list mags / real (length mags)"
proof -
  have "sum_list (map (\<lambda>_. m_min) mags) \<le> sum_list (map (\<lambda>m. m) mags)"
    using assms(1) by (intro sum_list_mono) auto
  then have "real (length mags) * m_min \<le> sum_list mags"
    by (simp add: sum_list_replicate map_replicate_const)
  then show ?thesis
    using assms(2) by (simp add: field_simps)
qed

lemma log10_e_pos: "0 < log 10 (exp 1)"
  by simp

text \<open>
  C6. \<open>estimate_b_value\<close> returns "undetermined" exactly when fewer than two magnitudes
  reach \<open>m_min\<close>. Otherwise, with \<open>mean\<close> the average of those magnitudes and \<open>n\<close>
  their number, it returns \<open>b = log10(e) / (mean - m_min)\<close>, a positive number, and
  \<open>2.3 * b / sqrt n\<close>; when \<open>mean = m_min\<close> that quotient is the infinity numpy
  returns for a zero divisor.
\<close>

theorem estimate_b_value_spec:
  fixes magnitudes :: "real list" and m_min :: real
  defines "mags \<equiv> filter (\<lambda>m. m \<ge> m_min) magnitudes"
  defines "n \<equiv> length mags"
  defines "mean \<equiv> sum_list mags / real n"
  defines "b \<equiv> log 10 (exp 1) / (mean - m_min)"
  shows "(estimate_b_value magnitudes m_min = Undetermined \<longleftrightarrow> n < 2) \<and>
         (2 \<le> n \<and> mean \<noteq> m_min \<longrightarrow>
            estimate_b_value magnitudes m_min = Estimate b (2.3 * b / sqrt (real n)) \<and> 0 < b) \<and>
         (2 \<le> n \<and> mean = m_min \<longrightarrow> estimate_b_value magnitudes m_min = Estimate_inf)"
proof -
  have "0 < b" if "2 \<le> n" and "mean \<noteq> m_min"
  proof -
    have "mags \<noteq> []"
      using that(1) by (auto simp: n_def)
    moreover have "\<forall>m \<in> set mags. m_min \<le> m"
      by (simp add: mags_def)
    ultimately have "m_min \<le> mean"
      unfolding mean_def n_def by (intro mean_ge_m_min)
    with that(2) have "0 < mean - m_min"
      by simp
    with log10_e_pos show ?thesis
      unfolding b_def by (rule divide_pos_pos)
  qed
  then show ?thesis
    unfolding mags_def n_def mean_def b_def estimate_b_value_def
    by (simp add: Let_def)
qed

theorem estimate_b_value_spec_witness:
  "estimate_b_value [3.0, 3.1, 3.3, 3.6, 4.0, 4.5] 3.0
     = Estimate (log 10 (exp 1) / (43 / 12 - 3.0))
         (2.3 * (log 10 (exp 1) / (43 / 12 - 3.0)) / sqrt 6) \<and>
   0 < log 10 (exp 1) / (43 / 12 - 3.0 :: real) \<and>
   estimate_b_value [2.0, 3.2] 3.0 = Undetermined \<and>
   estimate_b_value [3.0, 3.0] 3.0 = Estimate_inf"
  using estimate_b_value_spec [where magnitudes = "[3.0, 3.1, 3.3, 3.6, 4.0, 4.5]" and m_min = "3.0"]
    estimate_b_value_spec [where magnitudes = "[2.0, 3.2]" and m_min = "3.0"]
    estimate_b_value_spec [where magnitudes = "[3.0, 3.0]" and m_min = "3.0"]
  by simp

subsection \<open>Bootstrap events\<close>

lemma length_bootstrap_synthetic_events:
  "length (bootstrap_synthetic_events templates rs) = length templates"
  by (simp add: bootstrap_synthetic_events_def)


lemma bootstrap_event_fields:
  "time (bootstrap_event t r) = time t"
  "longitude (bootstrap_event t r) = longitude t"
  "latitude (bootstrap_event t r) = latitude t"
  "depth_km (bootstrap_event t r) = depth_km t"
  "log_energy (bootstrap_event t r)
     = map_option (\<lambda>e. e + 1.5 * uniform 1.5 2.3 r) (log_energy t)"
  "rupture_length_km (bootstrap_event t r)
     = Some (10 powr (- 2.44 + 0.59 * (magnitude t + uniform 1.5 2.3 r)))"
  "rupture_width_km (bootstrap_event t r)
     = Some (10 powr (- 1.01 + 0.32 * (magnitude t + uniform 1.5 2.3 r)))"
  "method_tag (bootstrap_event t r) = ''bootstrap''"
  "sample_weight (bootstrap_event t r) = 0.3"
  "event_id (bootstrap_event t r) = ''SYN_'' @ event_id t"
  by (simp_all add: bootstrap_event_def Let_def)

lemma generate_bootstrap_synthetics_run:
  assumes "processed_earthquakes st = Some eq_data"
    and "\<forall>e \<in> set eq_data. to_year (time e) \<noteq> None"
  shows "generate_bootstrap_synthetics to_year rs st =
     (let raw = bootstrap_synthetic_events (template_events eq_data) rs
      in if raw \<noteq> []
         then Inr (Some (filter (\<lambda>e. \<not> invalid_event e) raw),
                   st\<lparr>synthetic_bootstrap_v1 := Some (filter (\<lambda>e. \<not> invalid_event e) raw)\<rparr>,
                   sanity_report raw)
         else Inr (None, st, [No_synthetic_events]))"
  using assms
  by (simp add: generate_bootstrap_synthetics_def Let_def sanity_check_filter)



lemma template_M59_event:
  "magnitude (bootstrap_event template_M59 (7 / 8)) = 8.1"
  "depth_km (bootstrap_event template_M59 (7 / 8)) = Some 10"
  "rupture_length_km (bootstrap_event template_M59 (7 / 8)) = Some (10 powr (- 2.44 + 0.59 * 8.1))"
  by (simp_all add: bootstrap_event_fields bootstrap_event_magnitude uniform_def
      template_M59_def catalog_row_def)

lemma template_M59_invalid: "invalid_event (bootstrap_event template_M59 (7 / 8))"
  using wells_coppersmith_length_M81
  by (simp add: invalid_event_def cell_greater_def template_M59_event(3))


subsection \<open>Physics events\<close>

lemma sample_magnitude_le_cap: "sample_magnitude b_value r = Some m \<Longrightarrow> m \<le> 7.3"
  by (auto simp: sample_magnitude_def split: if_splits)

lemma physics_event_fields:
  "magnitude (physics_event strftime i m seg d v) = m"
  "depth_km (physics_event strftime i m seg d v) = Some (uniform 5 15 (depth_r d))"
  "rupture_length_km (physics_event strftime i m seg d v) = Some (sqrt (10 powr (m - 4.0) * 2))"
  by (simp_all add: physics_event_def Let_def)

lemma physics_step_event:
  assumes "physics_step py_float strftime fault_data i mag d = Inr (Some e)"
  shows "\<exists>m seg v. mag = Some m \<and> e = physics_event strftime i m seg d v"
  using assms
  by (auto simp: physics_step_def Let_def split: sum.splits option.splits if_splits)

lemma physics_loop_events:
  assumes "physics_loop py_float strftime fault_data b_value draws is = Inr (evs, msgs)"
  shows "\<forall>e \<in> set evs. \<exists>i m seg v.
           sample_magnitude b_value (mag_r (draws i)) = Some m \<and>
           e = physics_event strftime i m seg (draws i) v"
  using assms
proof (induction "is" arbitrary: evs msgs)
  case Nil
  then show ?case by simp
next
  case (Cons i "is")
  from Cons.prems obtain ev evs' msgs' where
    step: "physics_step py_float strftime fault_data i
             (sample_magnitude b_value (mag_r (draws i))) (draws i) = Inr ev"
    and rest: "physics_loop py_float strftime fault_data b_value draws is = Inr (evs', msgs')"
    and res: "(evs, msgs) = (case ev of None \<Rightarrow> (evs', No_suitable_segment i # msgs')
                             | Some e \<Rightarrow> (e # evs', msgs'))"
    by (auto split: sum.splits option.splits)
  note IH = Cons.IH [OF rest]
  show ?case
  proof (cases ev)
    case None
    with res IH show ?thesis by simp
  next
    case (Some e)
    with step physics_step_event obtain m seg v where
      "sample_magnitude b_value (mag_r (draws i)) = Some m"
      "e = physics_event strftime i m seg (draws i) v"
      by blast
    then have "\<exists>i m seg v.
           sample_magnitude b_value (mag_r (draws i)) = Some m \<and>
           e = physics_event strftime i m seg (draws i) v"
      by blast
    moreover have "evs = e # evs'"
      using Some res by simp
    ultimately show ?thesis
      using IH by (simp del: split_paired_Ex)
  qed
qed

lemma physics_loop_messages:
  assumes "physics_loop py_float strftime fault_data b_value draws is = Inr (evs, msgs)"
  shows "\<forall>msg \<in> set msgs. \<exists>i. msg = No_suitable_segment i"
  using assms
proof (induction "is" arbitrary: evs msgs)
  case Nil
  then show ?case by simp
next
  case (Cons i "is")
  then show ?case
    by (fastforce split: sum.splits option.splits)
qed

lemma physics_event_valid:
  assumes "m \<le> 7.3" and "0 \<le> depth_r d" and "depth_r d < 1"
  shows "\<not> invalid_event (physics_event strftime i m seg d v)"
proof -
  have "5 \<le> uniform 5 15 (depth_r d)"
    using uniform_bounds(1) [of 5 15 "depth_r d"] assms(2,3) by simp
  moreover have "sqrt (10 powr (m - 4.0) * 2) < 200"
    using assms(1) by (rule area_law_length_bound)
  ultimately show ?thesis
    by (simp add: invalid_event_def cell_less_def cell_greater_def physics_event_fields)
qed


lemma generate_physics_snapshots_run:
  assumes "generate_physics_snapshots py_float strftime draws st = Inr (ret, st', msgs)"
  shows "\<exists>fault_data synthetic_events skipped.
      marmara_faults st = Some fault_data \<and>
      physics_loop py_float strftime fault_data (read_b_value py_float st) draws
          [0..<n_synthetics] = Inr (synthetic_events, skipped) \<and>
      (if synthetic_events \<noteq> []
       then ret = Some (sanity_check synthetic_events) \<and>
            st' = st\<lparr>synthetic_physics_snapshots_v1 := Some (sanity_check synthetic_events)\<rparr> \<and>
            msgs = skipped @ sanity_report synthetic_events
       else ret = None \<and> st' = st \<and> msgs = skipped @ [No_synthetic_events])"
  using assms
  by (auto simp: generate_physics_snapshots_def Let_def
      split: option.splits sum.splits if_splits)

text \<open>
  C10. In a physics run that returns, with depth draws in [0, 1), every event built by the
  loop has a depth between 5 and 15 km, a magnitude of at most 7.3 and the rupture length
  \<open>sqrt (2 * 10 powr (M - 4))\<close>, which is below 200 km. So the sanity check selects no
  event: it returns the list unchanged, the table written and returned is the list the
  loop built, and no removal is reported.
\<close>

theorem physics_sanity_check_removes_nothing:
  assumes run: "generate_physics_snapshots py_float strftime draws st = Inr (ret, st', msgs)"
    and depth: "\<forall>i. 0 \<le> depth_r (draws i) \<and> depth_r (draws i) < 1"
  shows "\<exists>fault_data synthetic_events skipped.
      marmara_faults st = Some fault_data \<and>
      physics_loop py_float strftime fault_data (read_b_value py_float st) draws
          [0..<n_synthetics] = Inr (synthetic_events, skipped) \<and>
      (\<forall>e \<in> set synthetic_events.
          (\<exists>d. depth_km e = Some d \<and> 5 \<le> d \<and> d \<le> 15) \<and> magnitude e \<le> 7.3 \<and>
          rupture_length_km e = Some (sqrt (2 * 10 powr (magnitude e - 4.0))) \<and>
          sqrt (2 * 10 powr (magnitude e - 4.0)) < 200 \<and>
          \<not> invalid_event e) \<and>
      sanity_check synthetic_events = synthetic_events \<and>
      (synthetic_events \<noteq> [] \<longrightarrow>
         ret = Some synthetic_events \<and>
         synthetic_physics_snapshots_v1 st' = Some synthetic_events) \<and>
      (\<forall>n. Removing_unphysical n \<notin> set msgs)"
proof -
  from generate_physics_snapshots_run [OF run] obtain fault_data synthetic_events skipped where
    faults: "marmara_faults st = Some fault_data"
    and loop: "physics_loop py_float strftime fault_data (read_b_value py_float st) draws
          [0..<n_synthetics] = Inr (synthetic_events, skipped)"
    and res: "if synthetic_events \<noteq> []
       then ret = Some (sanity_check synthetic_events) \<and>
            st' = st\<lparr>synthetic_physics_snapshots_v1 := Some (sanity_check synthetic_events)\<rparr> \<and>
            msgs = skipped @ sanity_report synthetic_events
       else ret = None \<and> st' = st \<and> msgs = skipped @ [No_synthetic_events]"
    by blast
  have each: "(\<exists>d. depth_km e = Some d \<and> 5 \<le> d \<and> d \<le> 15) \<and> magnitude e \<le> 7.3 \<and>
          rupture_length_km e = Some (sqrt (2 * 10 powr (magnitude e - 4.0))) \<and>
          sqrt (2 * 10 powr (magnitude e - 4.0)) < 200 \<and>
          \<not> invalid_event e" if "e \<in> set synthetic_events" for e
  proof -
    from physics_loop_events [OF loop] that obtain i m seg v where
      m: "sample_magnitude (read_b_value py_float st) (mag_r (draws i)) = Some m"
      and e: "e = physics_event strftime i m seg (draws i) v"
      by blast
    have cap: "m \<le> 7.3"
      using m by (rule sample_magnitude_le_cap)
    have d: "0 \<le> depth_r (draws i)" "depth_r (draws i) < 1"
      using depth by simp_all
    have "5 \<le> uniform 5 15 (depth_r (draws i))" "uniform 5 15 (depth_r (draws i)) \<le> 15"
      using uniform_bounds [of 5 15 "depth_r (draws i)"] d by simp_all
    moreover have "sqrt (10 powr (m - 4.0) * 2) < 200"
      using cap by (rule area_law_length_bound)
    moreover have "\<not> invalid_event e"
      unfolding e using cap d by (rule physics_event_valid)
    ultimately show ?thesis
      using cap by (simp add: e physics_event_fields mult.commute)
  qed
  then have none: "filter invalid_event synthetic_events = []"
    by (simp add: filter_empty_conv)
  then have same: "sanity_check synthetic_events = synthetic_events"
    by (simp add: sanity_check_def)
  have quiet: "sanity_report synthetic_events = []"
    using none by (simp add: sanity_report_def)
  have msgs: "Removing_unphysical n \<notin> set msgs" for n
    using res physics_loop_messages [OF loop] quiet by (auto split: if_splits)
  have "ret = Some synthetic_events \<and> synthetic_physics_snapshots_v1 st' = Some synthetic_events"
    if "synthetic_events \<noteq> []"
    using res that same by simp
  with faults loop each same msgs show ?thesis
    by blast
qed

text \<open>A run on the example files: the trace of the example segment is long enough for
  every rupture, so each of the twenty candidates becomes an event.\<close>

lemma example_coord_pairs:
  "split_on CHR '';'' (coordinates example_segment) = [''0,0'', ''180,0'']"
  by (simp add: example_segment_def)

lemma example_parse_pair:
  "parse_pair py_float_small ''0,0'' = Inr (0, 0)"
  "parse_pair py_float_small ''180,0'' = Inr (180, 0)"
  by (simp_all add: parse_pair_def py_float_small_def)

lemma example_distance: "distance (0, 0) (180, 0) = pi * 6371"
  by (simp add: distance_def radians_def Let_def)

lemma example_segment_hosts:
  assumes "l < 200"
  shows "segment_can_host_rupture py_float_small example_segment (Some l) = Inr True"
proof -
  have "2 * 6371 \<le> pi * 6371"
    using pi_ge_two by simp
  then have "l \<le> pi * 6371"
    using assms by simp
  then show ?thesis
    by (simp add: segment_can_host_rupture_def example_coord_pairs example_parse_pair
        example_distance)
qed

lemma example_physics_step:
  assumes "m \<le> 7.3"
  shows "physics_step py_float_small strftime [example_segment] i (Some m) example_physics_draws
     = Inr (Some (physics_event strftime i m example_segment example_physics_draws (0, 0)))"
proof -
  have "sqrt (10 powr (m - 4.0) * 2) < 200"
    using assms by (rule area_law_length_bound)
  then have "segment_can_host_rupture py_float_small example_segment
      (Some (sqrt (10 powr (m - 4.0) * 2))) = Inr True"
    by (rule example_segment_hosts)
  then show ?thesis
    by (simp add: physics_step_def Let_def choice_def randint_def example_coord_pairs
        example_parse_pair example_physics_draws_def)
qed

lemma example_physics_loop:
  "physics_loop py_float_small strftime [example_segment] 1.15 same_physics_draws is
     = Inr (map (\<lambda>i. physics_event strftime i 6.5 example_segment example_physics_draws (0, 0)) is,
            [])"
proof (induction "is")
  case Nil
  then show ?case by simp
next
  case (Cons i "is")
  have m: "sample_magnitude 1.15 (mag_r (same_physics_draws i)) = Some 6.5"
    by (simp add: sample_magnitude_def same_physics_draws_def example_physics_draws_def)
  have "physics_step py_float_small strftime [example_segment] i (Some 6.5) example_physics_draws
     = Inr (Some (physics_event strftime i 6.5 example_segment example_physics_draws (0, 0)))"
    by (rule example_physics_step) simp
  with m Cons.IH show ?case
    by (simp add: same_physics_draws_def)
qed

lemma example_read_b_value: "read_b_value py_float_small catalog_and_faults = 1.15"
  by (simp add: read_b_value_def catalog_and_faults_def catalog_only_def)

lemma example_physics_run:
  "generate_physics_snapshots py_float_small strftime_start same_physics_draws catalog_and_faults
     = Inr (Some (sanity_check example_physics_events),
            catalog_and_faults
              \<lparr>synthetic_physics_snapshots_v1 := Some (sanity_check example_physics_events)\<rparr>,
            sanity_report example_physics_events)"
proof -
  have nonempty: "example_physics_events \<noteq> []"
    by (simp add: example_physics_events_def n_synthetics_def)
  have files: "marmara_faults catalog_and_faults = Some [example_segment]"
    "processed_earthquakes catalog_and_faults
       = Some [template_M52, catalog_row ''EQ_000004'' 3.4 7.0]"
    by (simp_all add: catalog_and_faults_def catalog_only_def)
  have loop: "physics_loop py_float_small strftime_start [example_segment]
      (read_b_value py_float_small catalog_and_faults) same_physics_draws [0..<n_synthetics]
      = Inr (example_physics_events, [])"
    unfolding example_read_b_value example_physics_events_def
    by (rule example_physics_loop)
  show ?thesis
    using nonempty by (simp add: generate_physics_snapshots_def files loop Let_def)
qed

theorem physics_sanity_check_removes_nothing_witness:
  "(\<forall>i. 0 \<le> depth_r (same_physics_draws i) \<and> depth_r (same_physics_draws i) < 1) \<and>
   generate_physics_snapshots py_float_small strftime_start same_physics_draws catalog_and_faults
     = Inr (Some example_physics_events,
            catalog_and_faults\<lparr>synthetic_physics_snapshots_v1 := Some example_physics_events\<rparr>,
            []) \<and>
   length example_physics_events = 20 \<and>
   map depth_km example_physics_events = replicate 20 (Some 10) \<and>
   map magnitude example_physics_events = replicate 20 6.5 \<and>
   filter invalid_event example_physics_events = []"
proof -
  have depth: "\<forall>i. 0 \<le> depth_r (same_physics_draws i) \<and> depth_r (same_physics_draws i) < 1"
    by (simp add: same_physics_draws_def example_physics_draws_def)
  from physics_sanity_check_removes_nothing [OF example_physics_run depth]
  obtain fault_data synthetic_events skipped where
    faults: "marmara_faults catalog_and_faults = Some fault_data"
    and loop: "physics_loop py_float_small strftime_start fault_data
          (read_b_value py_float_small catalog_and_faults) same_physics_draws
          [0..<n_synthetics] = Inr (synthetic_events, skipped)"
    and valid: "\<forall>e \<in> set synthetic_events. \<not> invalid_event e"
    and same: "sanity_check synthetic_events = synthetic_events"
    by blast
  have "fault_data = [example_segment]"
    using faults by (simp add: catalog_and_faults_def catalog_only_def)
  then have evs: "synthetic_events = example_physics_events"
    using loop unfolding example_read_b_value
    by (simp only: example_physics_loop example_physics_events_def sum.inject prod.inject)
  have quiet: "sanity_report example_physics_events = []"
    using valid unfolding evs by (simp add: sanity_report_def filter_empty_conv)
  have none: "filter invalid_event example_physics_events = []"
    using valid unfolding evs by (simp add: filter_empty_conv)
  have fields: "map depth_km example_physics_events = replicate 20 (Some 10)"
    "map magnitude example_physics_events = replicate 20 6.5"
    by (simp_all add: example_physics_events_def physics_event_fields uniform_def
        example_physics_draws_def n_synthetics_def map_replicate_const comp_def)
  have "length example_physics_events = 20"
    by (simp add: example_physics_events_def n_synthetics_def)
  with depth example_physics_run same quiet none fields show ?thesis
    unfolding evs by simp
qed

subsection \<open>What the generators write\<close>

lemma simple_event_fields:
  "magnitude (simple_event i t d) = uniform 6.5 7.3 (magnitude_r d)"
  "depth_km (simple_event i t d) = Some (uniform 5 20 (depth_km_r d))"
  "rupture_length_km (simple_event i t d)
     = Some (sqrt (10 powr (uniform 6.5 7.3 (magnitude_r d) - 4.0) * 2))"
  by (simp_all add: simple_event_def Let_def)

lemma simple_event_bounds:
  assumes "0 \<le> magnitude_r d" "magnitude_r d < 1" "0 \<le> depth_km_r d" "depth_km_r d < 1"
  shows "(\<exists>x. depth_km (simple_event i t d) = Some x \<and> 5 \<le> x \<and> x \<le> 20) \<and>
         (\<exists>l. rupture_length_km (simple_event i t d) = Some l \<and> l < 200)"
proof -
  have "uniform 6.5 7.3 (magnitude_r d) \<le> 7.3"
    using uniform_bounds(2) [of "6.5" "7.3" "magnitude_r d"] assms(1,2) by simp
  then have "sqrt (10 powr (uniform 6.5 7.3 (magnitude_r d) - 4.0) * 2) < 200"
    by (rule area_law_length_bound)
  moreover have "5 \<le> uniform 5 20 (depth_km_r d)" "uniform 5 20 (depth_km_r d) \<le> 20"
    using uniform_bounds [of 5 20 "depth_km_r d"] assms(3,4) by simp_all
  ultimately show ?thesis
    by (simp add: simple_event_fields)
qed

lemma bootstrap_events_length_known:
  "e \<in> set (bootstrap_synthetic_events templates rs) \<Longrightarrow> \<exists>l. rupture_length_km e = Some l"
  by (auto simp: bootstrap_synthetic_events_def bootstrap_event_fields)

lemma physics_events_cells_known:
  assumes "physics_loop py_float strftime fault_data b_value draws is = Inr (evs, msgs)"
    and "e \<in> set evs"
  shows "(\<exists>d. depth_km e = Some d) \<and> (\<exists>l. rupture_length_km e = Some l)"
  using physics_loop_events [OF assms(1)] assms(2)
  by (auto simp: physics_event_fields)

lemma valid_event_cells:
  assumes "\<not> invalid_event e"
  shows "depth_km e = Some d \<Longrightarrow> 0 \<le> d" and "rupture_length_km e = Some l \<Longrightarrow> l \<le> 200"
  using assms by (simp_all add: invalid_event_def cell_less_def cell_greater_def)

text \<open>
  C1 (as amended). The table that the bootstrap strategy and the physics strategy write
  is the list of events built by the loop without those that the sanity check selects
  (\<open>depth_km < 0\<close> or \<open>rupture_length_km > 200\<close>), the same check in both. So no row
  written has a depth below zero or a rupture length above 200 km; a bootstrap row whose
  depth cell is empty is not selected and is written with its empty depth, and every
  physics row has a depth, which is at least zero. With draws in [0, 1), every row that
  the simple strategy writes has a depth between 5 and 20 km and a rupture length below
  200 km.
\<close>

theorem written_events_after_sanity_check:
  "(generate_bootstrap_synthetics to_year rs st = Inr (Some df_b, st_b, msgs_b) \<longrightarrow>
      synthetic_bootstrap_v1 st_b = Some df_b \<and>
      (\<exists>eq_data. processed_earthquakes st = Some eq_data \<and>
         df_b = filter (\<lambda>e. \<not> invalid_event e)
                  (bootstrap_synthetic_events (template_events eq_data) rs)) \<and>
      (\<forall>e \<in> set df_b.
         (depth_km e = None \<or> (\<exists>d. depth_km e = Some d \<and> 0 \<le> d)) \<and>
         (\<exists>l. rupture_length_km e = Some l \<and> l \<le> 200))) \<and>
   (generate_physics_snapshots py_float strftime draws st = Inr (Some df_p, st_p, msgs_p) \<longrightarrow>
      synthetic_physics_snapshots_v1 st_p = Some df_p \<and>
      (\<exists>fault_data raw skipped. marmara_faults st = Some fault_data \<and>
         physics_loop py_float strftime fault_data (read_b_value py_float st) draws
           [0..<n_synthetics] = Inr (raw, skipped) \<and>
         df_p = filter (\<lambda>e. \<not> invalid_event e) raw) \<and>
      (\<forall>e \<in> set df_p.
         (\<exists>d. depth_km e = Some d \<and> 0 \<le> d) \<and>
         (\<exists>l. rupture_length_km e = Some l \<and> l \<le> 200))) \<and>
   (generate_simple_synthetics sdraws st = Inr (df_s, st_s) \<and>
    (\<forall>i. 0 \<le> magnitude_r (sdraws i) \<and> magnitude_r (sdraws i) < 1 \<and>
         0 \<le> depth_km_r (sdraws i) \<and> depth_km_r (sdraws i) < 1) \<longrightarrow>
      synthetic_simple_v1 st_s = Some df_s \<and>
      (\<forall>e \<in> set df_s.
         (\<exists>d. depth_km e = Some d \<and> 5 \<le> d \<and> d \<le> 20) \<and>
         (\<exists>l. rupture_length_km e = Some l \<and> l < 200)))"
proof (intro conjI impI)
  assume run: "generate_bootstrap_synthetics to_year rs st = Inr (Some df_b, st_b, msgs_b)"
  then obtain eq_data where eq: "processed_earthquakes st = Some eq_data"
    and df: "df_b = filter (\<lambda>e. \<not> invalid_event e)
                  (bootstrap_synthetic_events (template_events eq_data) rs)"
    and st: "st_b = st\<lparr>synthetic_bootstrap_v1 := Some df_b\<rparr>"
    by (auto simp: generate_bootstrap_synthetics_def Let_def sanity_check_filter
        split: option.splits if_splits)
  show "synthetic_bootstrap_v1 st_b = Some df_b"
    by (simp add: st)
  show "\<exists>eq_data. processed_earthquakes st = Some eq_data \<and>
         df_b = filter (\<lambda>e. \<not> invalid_event e)
                  (bootstrap_synthetic_events (template_events eq_data) rs)"
    using eq df by blast
  show "\<forall>e \<in> set df_b.
         (depth_km e = None \<or> (\<exists>d. depth_km e = Some d \<and> 0 \<le> d)) \<and>
         (\<exists>l. rupture_length_km e = Some l \<and> l \<le> 200)"
  proof
    fix e
    assume "e \<in> set df_b"
    then have raw: "e \<in> set (bootstrap_synthetic_events (template_events eq_data) rs)"
      and valid: "\<not> invalid_event e"
      by (simp_all add: df)
    from raw obtain l where l: "rupture_length_km e = Some l"
      using bootstrap_events_length_known by blast
    have "l \<le> 200"
      using valid l by (rule valid_event_cells(2))
    moreover have "depth_km e = None \<or> (\<exists>d. depth_km e = Some d \<and> 0 \<le> d)"
      using valid_event_cells(1) [OF valid] by (cases "depth_km e") simp_all
    ultimately show "(depth_km e = None \<or> (\<exists>d. depth_km e = Some d \<and> 0 \<le> d)) \<and>
         (\<exists>l. rupture_length_km e = Some l \<and> l \<le> 200)"
      using l by simp
  qed
next
  assume run: "generate_physics_snapshots py_float strftime draws st = Inr (Some df_p, st_p, msgs_p)"
  from generate_physics_snapshots_run [OF run] obtain fault_data raw skipped where
    faults: "marmara_faults st = Some fault_data"
    and loop: "physics_loop py_float strftime fault_data (read_b_value py_float st) draws
          [0..<n_synthetics] = Inr (raw, skipped)"
    and df: "df_p = filter (\<lambda>e. \<not> invalid_event e) raw"
    and st: "st_p = st\<lparr>synthetic_physics_snapshots_v1 := Some df_p\<rparr>"
    by (auto simp: sanity_check_filter split: if_splits)
  show "synthetic_physics_snapshots_v1 st_p = Some df_p"
    by (simp add: st)
  show "\<exists>fault_data raw skipped. marmara_faults st = Some fault_data \<and>
         physics_loop py_float strftime fault_data (read_b_value py_float st) draws
           [0..<n_synthetics] = Inr (raw, skipped) \<and>
         df_p = filter (\<lambda>e. \<not> invalid_event e) raw"
    using faults loop df by blast
  show "\<forall>e \<in> set df_p.
         (\<exists>d. depth_km e = Some d \<and> 0 \<le> d) \<and>
         (\<exists>l. rupture_length_km e = Some l \<and> l \<le> 200)"
  proof
    fix e
    assume "e \<in> set df_p"
    then have raw: "e \<in> set raw" and valid: "\<not> invalid_event e"
      by (simp_all add: df)
    from physics_events_cells_known [OF loop raw] obtain d l where
      d: "depth_km e = Some d" and l: "rupture_length_km e = Some l"
      by blast
    have "0 \<le> d"
      using valid d by (rule valid_event_cells(1))
    moreover have "l \<le> 200"
      using valid l by (rule valid_event_cells(2))
    ultimately show "(\<exists>d. depth_km e = Some d \<and> 0 \<le> d) \<and>
         (\<exists>l. rupture_length_km e = Some l \<and> l \<le> 200)"
      using d l by simp
  qed
next
  assume "generate_simple_synthetics sdraws st = Inr (df_s, st_s) \<and>
    (\<forall>i. 0 \<le> magnitude_r (sdraws i) \<and> magnitude_r (sdraws i) < 1 \<and>
         0 \<le> depth_km_r (sdraws i) \<and> depth_km_r (sdraws i) < 1)"
  then have run: "generate_simple_synthetics sdraws st = Inr (df_s, st_s)"
    and range: "\<forall>i. 0 \<le> magnitude_r (sdraws i) \<and> magnitude_r (sdraws i) < 1 \<and>
         0 \<le> depth_km_r (sdraws i) \<and> depth_km_r (sdraws i) < 1"
    by simp_all
  from run obtain all_data where all: "combined_dataset_v1 st = Some all_data"
    and df: "df_s = simple_synthetic_events (filter (\<lambda>e. magnitude e \<ge> 5.0) all_data) sdraws"
    and st: "st_s = st\<lparr>synthetic_simple_v1 := Some df_s\<rparr>"
    by (auto simp: generate_simple_synthetics_def Let_def split: option.splits if_splits)
  show "synthetic_simple_v1 st_s = Some df_s"
    by (simp add: st)
  show "\<forall>e \<in> set df_s.
         (\<exists>d. depth_km e = Some d \<and> 5 \<le> d \<and> d \<le> 20) \<and>
         (\<exists>l. rupture_length_km e = Some l \<and> l < 200)"
    unfolding df simple_synthetic_events_def
    using range by (auto intro!: simple_event_bounds [THEN conjunct1]
        simple_event_bounds [THEN conjunct2])
qed

lemma cells_imp_none_invalid:
  assumes "\<forall>e \<in> set df.
         (depth_km e = None \<or> (\<exists>d. depth_km e = Some d \<and> 0 \<le> d)) \<and>
         (\<exists>l. rupture_length_km e = Some l \<and> l \<le> 200)"
  shows "filter invalid_event df = []"
  using assms
  by (fastforce simp: filter_empty_conv invalid_event_def cell_less_def cell_greater_def)

lemma template_M52_valid: "\<not> invalid_event (bootstrap_event template_M52 (5 / 8))"
proof -
  have "(10::real) powr (- 2.44 + 0.59 * (5.2 + uniform 1.5 2.3 (5 / 8))) \<le> 10 powr 2"
    by (intro powr_mono) (auto simp: uniform_def)
  then show ?thesis
    by (simp add: invalid_event_def cell_less_def cell_greater_def bootstrap_event_fields
        template_M52_def catalog_row_def)
qed

lemma example_bootstrap_run:
  "generate_bootstrap_synthetics to_year_2010 draws_5_8
       (catalog_only [template_M52, catalog_row ''EQ_000004'' 3.4 7.0]) =
     Inr (Some [bootstrap_event template_M52 (5 / 8)],
          (catalog_only [template_M52, catalog_row ''EQ_000004'' 3.4 7.0])
            \<lparr>synthetic_bootstrap_v1 := Some [bootstrap_event template_M52 (5 / 8)]\<rparr>,
          [])"
proof -
  have t: "template_events [template_M52, catalog_row ''EQ_000004'' 3.4 7.0] = [template_M52]"
    by (simp add: template_events_def template_M52_def catalog_row_def)
  have raw: "bootstrap_synthetic_events [template_M52] draws_5_8
               = [bootstrap_event template_M52 (5 / 8)]"
    by (simp add: bootstrap_synthetic_events_def draws_5_8_def)
  have h1: "processed_earthquakes (catalog_only [template_M52, catalog_row ''EQ_000004'' 3.4 7.0])
      = Some [template_M52, catalog_row ''EQ_000004'' 3.4 7.0]"
    by (simp add: catalog_only_def)
  have h2: "\<forall>e \<in> set [template_M52, catalog_row ''EQ_000004'' 3.4 7.0].
      to_year_2010 (time e) \<noteq> None"
    by (simp add: to_year_2010_def)
  show ?thesis
    unfolding generate_bootstrap_synthetics_run [OF h1 h2] t raw
    using template_M52_valid by (simp add: sanity_report_def Let_def)
qed

lemma example_physics_events_valid:
  "filter (\<lambda>e. \<not> invalid_event e) example_physics_events = example_physics_events"
proof -
  have "\<not> invalid_event
          (physics_event strftime_start i 6.5 example_segment example_physics_draws (0, 0))" for i
    by (rule physics_event_valid) (simp_all add: example_physics_draws_def)
  then show ?thesis
    by (simp add: example_physics_events_def)
qed

lemma example_simple_run:
  "generate_simple_synthetics same_simple_draws (combined_only [template_M52]) =
     Inr (simple_synthetic_events [template_M52] same_simple_draws,
          (combined_only [template_M52])
            \<lparr>synthetic_simple_v1 :=
               Some (simple_synthetic_events [template_M52] same_simple_draws)\<rparr>)"
  by (simp add: generate_simple_synthetics_def combined_only_def template_M52_def
      catalog_row_def Let_def)

theorem written_events_after_sanity_check_witness:
  "(\<exists>df st' msgs.
      generate_bootstrap_synthetics to_year_2010 draws_5_8
        (catalog_only [template_M52, catalog_row ''EQ_000004'' 3.4 7.0])
        = Inr (Some df, st', msgs) \<and>
      length df = 1 \<and> synthetic_bootstrap_v1 st' = Some df \<and> filter invalid_event df = []) \<and>
   (\<exists>df st' msgs.
      generate_physics_snapshots py_float_small strftime_start same_physics_draws
        catalog_and_faults = Inr (Some df, st', msgs) \<and>
      length df = 20 \<and> synthetic_physics_snapshots_v1 st' = Some df \<and>
      filter invalid_event df = []) \<and>
   (\<forall>i. 0 \<le> magnitude_r (same_simple_draws i) \<and> magnitude_r (same_simple_draws i) < 1 \<and>
        0 \<le> depth_km_r (same_simple_draws i) \<and> depth_km_r (same_simple_draws i) < 1) \<and>
   (\<exists>df st'.
      generate_simple_synthetics same_simple_draws (combined_only [template_M52])
        = Inr (df, st') \<and>
      length df = 10 \<and> synthetic_simple_v1 st' = Some df \<and> filter invalid_event df = [])"
proof -
  have range: "\<forall>i. 0 \<le> magnitude_r (same_simple_draws i) \<and> magnitude_r (same_simple_draws i) < 1 \<and>
        0 \<le> depth_km_r (same_simple_draws i) \<and> depth_km_r (same_simple_draws i) < 1"
    by (simp add: same_simple_draws_def example_simple_draws_def)
  note b0 = written_events_after_sanity_check
      [THEN conjunct1, rule_format, OF example_bootstrap_run]
  have b: "synthetic_bootstrap_v1
             ((catalog_only [template_M52, catalog_row ''EQ_000004'' 3.4 7.0])
                \<lparr>synthetic_bootstrap_v1 := Some [bootstrap_event template_M52 (5 / 8)]\<rparr>)
             = Some [bootstrap_event template_M52 (5 / 8)] \<and>
           filter invalid_event [bootstrap_event template_M52 (5 / 8)] = []"
    using b0 cells_imp_none_invalid [of "[bootstrap_event template_M52 (5 / 8)]"]
    by blast
  note p0 = written_events_after_sanity_check
      [THEN conjunct2, THEN conjunct1, rule_format, OF example_physics_run]
  have "\<forall>e \<in> set (sanity_check example_physics_events).
         (depth_km e = None \<or> (\<exists>d. depth_km e = Some d \<and> 0 \<le> d)) \<and>
         (\<exists>l. rupture_length_km e = Some l \<and> l \<le> 200)"
    using p0 by blast
  then have "filter invalid_event (sanity_check example_physics_events) = []"
    by (rule cells_imp_none_invalid)
  with p0 have p: "synthetic_physics_snapshots_v1
             (catalog_and_faults
                \<lparr>synthetic_physics_snapshots_v1 := Some (sanity_check example_physics_events)\<rparr>)
             = Some (sanity_check example_physics_events) \<and>
           filter invalid_event (sanity_check example_physics_events) = []"
    by blast
  note s0 = written_events_after_sanity_check
      [THEN conjunct2, THEN conjunct2, rule_format, OF conjI, OF example_simple_run range]
  have "\<forall>e \<in> set (simple_synthetic_events [template_M52] same_simple_draws).
         (depth_km e = None \<or> (\<exists>d. depth_km e = Some d \<and> 0 \<le> d)) \<and>
         (\<exists>l. rupture_length_km e = Some l \<and> l \<le> 200)"
    using s0 by fastforce
  then have "filter invalid_event (simple_synthetic_events [template_M52] same_simple_draws) = []"
    by (rule cells_imp_none_invalid)
  with s0 have s: "synthetic_simple_v1
             ((combined_only [template_M52])
                \<lparr>synthetic_simple_v1 :=
                   Some (simple_synthetic_events [template_M52] same_simple_draws)\<rparr>)
             = Some (simple_synthetic_events [template_M52] same_simple_draws) \<and>
           filter invalid_event (simple_synthetic_events [template_M52] same_simple_draws) = []"
    by blast
  have lp: "length (sanity_check example_physics_events) = 20"
    unfolding sanity_check_filter example_physics_events_valid
    by (simp add: example_physics_events_def n_synthetics_def)
  have ls: "length (simple_synthetic_events [template_M52] same_simple_draws) = 10"
    by (simp add: simple_synthetic_events_def n_synthetic_def)
  have B: "\<exists>df st' msgs.
      generate_bootstrap_synthetics to_year_2010 draws_5_8
        (catalog_only [template_M52, catalog_row ''EQ_000004'' 3.4 7.0])
        = Inr (Some df, st', msgs) \<and>
      length df = 1 \<and> synthetic_bootstrap_v1 st' = Some df \<and> filter invalid_event df = []"
  proof (intro exI conjI)
    show "generate_bootstrap_synthetics to_year_2010 draws_5_8
        (catalog_only [template_M52, catalog_row ''EQ_000004'' 3.4 7.0])
        = Inr (Some [bootstrap_event template_M52 (5 / 8)],
          (catalog_only [template_M52, catalog_row ''EQ_000004'' 3.4 7.0])
            \<lparr>synthetic_bootstrap_v1 := Some [bootstrap_event template_M52 (5 / 8)]\<rparr>,
          [])"
      by (rule example_bootstrap_run)
    show "length [bootstrap_event template_M52 (5 / 8)] = 1"
      by simp
    show "synthetic_bootstrap_v1
             ((catalog_only [template_M52, catalog_row ''EQ_000004'' 3.4 7.0])
                \<lparr>synthetic_bootstrap_v1 := Some [bootstrap_event template_M52 (5 / 8)]\<rparr>)
             = Some [bootstrap_event template_M52 (5 / 8)]"
      using b by (rule conjunct1)
    show "filter invalid_event [bootstrap_event template_M52 (5 / 8)] = []"
      using b by (rule conjunct2)
  qed
  have P: "\<exists>df st' msgs.
      generate_physics_snapshots py_float_small strftime_start same_physics_draws
        catalog_and_faults = Inr (Some df, st', msgs) \<and>
      length df = 20 \<and> synthetic_physics_snapshots_v1 st' = Some df \<and>
      filter invalid_event df = []"
  proof (intro exI conjI)
    show "generate_physics_snapshots py_float_small strftime_start same_physics_draws
        catalog_and_faults
        = Inr (Some (sanity_check example_physics_events),
            catalog_and_faults
              \<lparr>synthetic_physics_snapshots_v1 := Some (sanity_check example_physics_events)\<rparr>,
            sanity_report example_physics_events)"
      by (rule example_physics_run)
    show "length (sanity_check example_physics_events) = 20"
      by (rule lp)
    show "synthetic_physics_snapshots_v1
             (catalog_and_faults
                \<lparr>synthetic_physics_snapshots_v1 := Some (sanity_check example_physics_events)\<rparr>)
             = Some (sanity_check example_physics_events)"
      using p by (rule conjunct1)
    show "filter invalid_event (sanity_check example_physics_events) = []"
      using p by (rule conjunct2)
  qed
  have S: "\<exists>df st'.
      generate_simple_synthetics same_simple_draws (combined_only [template_M52])
        = Inr (df, st') \<and>
      length df = 10 \<and> synthetic_simple_v1 st' = Some df \<and> filter invalid_event df = []"
  proof (intro exI conjI)
    show "generate_simple_synthetics same_simple_draws (combined_only [template_M52]) =
       Inr (simple_synthetic_events [template_M52] same_simple_draws,
          (combined_only [template_M52])
            \<lparr>synthetic_simple_v1 :=
               Some (simple_synthetic_events [template_M52] same_simple_draws)\<rparr>)"
      by (rule example_simple_run)
    show "length (simple_synthetic_events [template_M52] same_simple_draws) = 10"
      by (rule ls)
    show "synthetic_simple_v1
             ((combined_only [template_M52])
                \<lparr>synthetic_simple_v1 :=
                   Some (simple_synthetic_events [template_M52] same_simple_draws)\<rparr>)
             = Some (simple_synthetic_events [template_M52] same_simple_draws)"
      using s by (rule conjunct1)
    show "filter invalid_event (simple_synthetic_events [template_M52] same_simple_draws) = []"
      using s by (rule conjunct2)
  qed
  show ?thesis
    using B P range S by (intro conjI)
qed

text \<open>
  A template whose depth cell is empty: \<open>NaN < 0\<close> is false, so the sanity check does not
  select the event built from it, and the row is written with an empty depth, for which
  \<open>depth_km \<ge> 0\<close> does not hold.
\<close>

theorem bootstrap_writes_event_without_depth:
  "template_events [template_no_depth] = [template_no_depth] \<and>
   depth_km template_no_depth = None \<and>
   generate_bootstrap_synthetics to_year_2010 draws_5_8 (catalog_only [template_no_depth]) =
     Inr (Some [bootstrap_event template_no_depth (5 / 8)],
          (catalog_only [template_no_depth])
            \<lparr>synthetic_bootstrap_v1 := Some [bootstrap_event template_no_depth (5 / 8)]\<rparr>,
          []) \<and>
   depth_km (bootstrap_event template_no_depth (5 / 8)) = None"
proof -
  have t: "template_events [template_no_depth] = [template_no_depth]"
    by (simp add: template_events_def template_no_depth_def catalog_row_def)
  have raw: "bootstrap_synthetic_events [template_no_depth] draws_5_8
               = [bootstrap_event template_no_depth (5 / 8)]"
    by (simp add: bootstrap_synthetic_events_def draws_5_8_def)
  have none: "depth_km template_no_depth = None"
    by (simp add: template_no_depth_def)
  have "(10::real) powr (- 2.44 + 0.59 * (5.2 + uniform 1.5 2.3 (5 / 8))) \<le> 10 powr 2"
    by (intro powr_mono) (auto simp: uniform_def)
  then have valid: "\<not> invalid_event (bootstrap_event template_no_depth (5 / 8))"
    by (simp add: invalid_event_def cell_less_def cell_greater_def bootstrap_event_fields
        template_no_depth_def catalog_row_def)
  have h1: "processed_earthquakes (catalog_only [template_no_depth]) = Some [template_no_depth]"
    by (simp add: catalog_only_def)
  have h2: "\<forall>e \<in> set [template_no_depth]. to_year_2010 (time e) \<noteq> None"
    by (simp add: to_year_2010_def)
  have "generate_bootstrap_synthetics to_year_2010 draws_5_8 (catalog_only [template_no_depth]) =
     Inr (Some [bootstrap_event template_no_depth (5 / 8)],
          (catalog_only [template_no_depth])
            \<lparr>synthetic_bootstrap_v1 := Some [bootstrap_event template_no_depth (5 / 8)]\<rparr>,
          [])"
    unfolding generate_bootstrap_synthetics_run [OF h1 h2] t raw
    using valid by (simp add: sanity_report_def Let_def)
  moreover have "depth_km (bootstrap_event template_no_depth (5 / 8)) = None"
    by (simp add: bootstrap_event_fields none)
  ultimately show ?thesis
    using t none by blast
qed

subsection \<open>Runs that build no event\<close>

lemma physics_loop_no_faults:
  "physics_loop py_float strftime [] b_value draws is = Inr ([], map No_suitable_segment is)"
  by (induction "is") (simp_all add: physics_step_def split: option.splits)

lemma assemble_missing_file:
  assumes "processed_earthquakes st = None \<or> synthetic_bootstrap_v1 st = None \<or>
           synthetic_physics_snapshots_v1 st = None"
  shows "assemble_dataset to_year st = Inl FileNotFoundError"
    and "finalize_dataset to_year st = Inl FileNotFoundError"
  using assms
  by (auto simp: assemble_dataset_def finalize_dataset_def split: option.splits)

lemma all_invalid_report:
  assumes "raw \<noteq> []" and "\<forall>e \<in> set raw. invalid_event e"
  shows "filter (\<lambda>e. \<not> invalid_event e) raw = []"
    and "sanity_report raw = [Removing_unphysical (length raw)]"
proof -
  show "filter (\<lambda>e. \<not> invalid_event e) raw = []"
    using assms(2) by (simp add: filter_empty_conv)
  have "filter invalid_event raw = raw"
    using assms(2) by simp
  then show "sanity_report raw = [Removing_unphysical (length raw)]"
    using assms(1) by (simp add: sanity_report_def)
qed

text \<open>
  C4 (as amended). A bootstrap run without a template and a physics run in which no
  candidate finds a segment report \<open>No synthetic events were generated\<close>, return
  \<open>None\<close> and leave the files as they were: they do not raise, and they write no table. A
  bootstrap run whose events are all removed by the sanity check reports the removal and
  writes and returns a table without rows. The assembly scripts raise FileNotFoundError
  when a generator's file does not exist.
\<close>

theorem generator_without_events:
  "(processed_earthquakes st = Some eq_data \<and>
    (\<forall>e \<in> set eq_data. to_year (time e) \<noteq> None) \<and>
    template_events eq_data = [] \<longrightarrow>
      generate_bootstrap_synthetics to_year rs st = Inr (None, st, [No_synthetic_events])) \<and>
   (processed_earthquakes st = Some eq_data \<and>
    (\<forall>e \<in> set eq_data. to_year (time e) \<noteq> None) \<and>
    template_events eq_data \<noteq> [] \<and>
    (\<forall>e \<in> set (bootstrap_synthetic_events (template_events eq_data) rs). invalid_event e) \<longrightarrow>
      generate_bootstrap_synthetics to_year rs st =
        Inr (Some [], st\<lparr>synthetic_bootstrap_v1 := Some []\<rparr>,
             [Removing_unphysical (length (template_events eq_data))])) \<and>
   (marmara_faults st = Some fault_data \<and> processed_earthquakes st = Some eq_data \<and>
    physics_loop py_float strftime fault_data (read_b_value py_float st) draws
      [0..<n_synthetics] = Inr ([], skipped) \<longrightarrow>
      generate_physics_snapshots py_float strftime draws st =
        Inr (None, st, skipped @ [No_synthetic_events])) \<and>
   (processed_earthquakes st = None \<or> synthetic_bootstrap_v1 st = None \<or>
    synthetic_physics_snapshots_v1 st = None \<longrightarrow>
      assemble_dataset to_year st = Inl FileNotFoundError \<and>
      finalize_dataset to_year st = Inl FileNotFoundError)"
proof (intro conjI impI)
  assume "processed_earthquakes st = Some eq_data \<and>
    (\<forall>e \<in> set eq_data. to_year (time e) \<noteq> None) \<and> template_events eq_data = []"
  then show "generate_bootstrap_synthetics to_year rs st = Inr (None, st, [No_synthetic_events])"
    by (simp add: generate_bootstrap_synthetics_run bootstrap_synthetic_events_def)
next
  assume a: "processed_earthquakes st = Some eq_data \<and>
    (\<forall>e \<in> set eq_data. to_year (time e) \<noteq> None) \<and>
    template_events eq_data \<noteq> [] \<and>
    (\<forall>e \<in> set (bootstrap_synthetic_events (template_events eq_data) rs). invalid_event e)"
  then have "bootstrap_synthetic_events (template_events eq_data) rs \<noteq> []"
    using length_bootstrap_synthetic_events [of "template_events eq_data" rs] by auto
  with a show "generate_bootstrap_synthetics to_year rs st =
        Inr (Some [], st\<lparr>synthetic_bootstrap_v1 := Some []\<rparr>,
             [Removing_unphysical (length (template_events eq_data))])"
    by (simp add: generate_bootstrap_synthetics_run all_invalid_report Let_def
        length_bootstrap_synthetic_events)
next
  assume "marmara_faults st = Some fault_data \<and> processed_earthquakes st = Some eq_data \<and>
    physics_loop py_float strftime fault_data (read_b_value py_float st) draws
      [0..<n_synthetics] = Inr ([], skipped)"
  then show "generate_physics_snapshots py_float strftime draws st =
        Inr (None, st, skipped @ [No_synthetic_events])"
    by (simp add: generate_physics_snapshots_def)
next
  assume a: "processed_earthquakes st = None \<or> synthetic_bootstrap_v1 st = None \<or>
    synthetic_physics_snapshots_v1 st = None"
  show "assemble_dataset to_year st = Inl FileNotFoundError"
    using a by (rule assemble_missing_file)
  show "finalize_dataset to_year st = Inl FileNotFoundError"
    using a by (rule assemble_missing_file)
qed

theorem generator_without_events_witness:
  "generate_bootstrap_synthetics to_year_2010 draws_5_8 (catalog_only [small_event])
     = Inr (None, catalog_only [small_event], [No_synthetic_events]) \<and>
   generate_bootstrap_synthetics to_year_2010 draws_7_8 (catalog_only [template_M59])
     = Inr (Some [], (catalog_only [template_M59])\<lparr>synthetic_bootstrap_v1 := Some []\<rparr>,
            [Removing_unphysical 1]) \<and>
   generate_physics_snapshots py_float_small strftime_start same_physics_draws
       catalog_and_no_faults
     = Inr (None, catalog_and_no_faults,
            map No_suitable_segment [0..<n_synthetics] @ [No_synthetic_events]) \<and>
   assemble_dataset to_year_2010 (catalog_only [small_event]) = Inl FileNotFoundError \<and>
   finalize_dataset to_year_2010 (catalog_only [small_event]) = Inl FileNotFoundError"
proof -
  have small: "template_events [small_event] = []"
    by (simp add: template_events_def small_event_def catalog_row_def)
  have big: "template_events [template_M59] = [template_M59]"
    by (simp add: template_events_def template_M59_def catalog_row_def)
  have raw: "bootstrap_synthetic_events [template_M59] draws_7_8
               = [bootstrap_event template_M59 (7 / 8)]"
    by (simp add: bootstrap_synthetic_events_def draws_7_8_def)
  have a: "generate_bootstrap_synthetics to_year_2010 draws_5_8 (catalog_only [small_event])
     = Inr (None, catalog_only [small_event], [No_synthetic_events])"
    using generator_without_events
      [where st = "catalog_only [small_event]" and eq_data = "[small_event]"
         and to_year = to_year_2010 and rs = draws_5_8, THEN conjunct1]
    by (simp add: small catalog_only_def to_year_2010_def)
  have b: "generate_bootstrap_synthetics to_year_2010 draws_7_8 (catalog_only [template_M59])
     = Inr (Some [], (catalog_only [template_M59])\<lparr>synthetic_bootstrap_v1 := Some []\<rparr>,
            [Removing_unphysical 1])"
    using generator_without_events
      [where st = "catalog_only [template_M59]" and eq_data = "[template_M59]"
         and to_year = to_year_2010 and rs = draws_7_8, THEN conjunct2, THEN conjunct1]
      template_M59_invalid
    by (simp add: big raw catalog_only_def to_year_2010_def)
  have c: "generate_physics_snapshots py_float_small strftime_start same_physics_draws
       catalog_and_no_faults
     = Inr (None, catalog_and_no_faults,
            map No_suitable_segment [0..<n_synthetics] @ [No_synthetic_events])"
    using generator_without_events
      [where st = catalog_and_no_faults and eq_data = "[small_event]"
         and fault_data = "[]" and py_float = py_float_small and strftime = strftime_start
         and draws = same_physics_draws
         and skipped = "map No_suitable_segment [0..<n_synthetics]",
         THEN conjunct2, THEN conjunct2, THEN conjunct1]
    by (simp add: physics_loop_no_faults catalog_and_no_faults_def catalog_only_def)
  have e: "assemble_dataset to_year_2010 (catalog_only [small_event]) = Inl FileNotFoundError \<and>
      finalize_dataset to_year_2010 (catalog_only [small_event]) = Inl FileNotFoundError"
    using generator_without_events
      [where st = "catalog_only [small_event]" and to_year = to_year_2010,
         THEN conjunct2, THEN conjunct2, THEN conjunct2]
    by (simp add: catalog_only_def)
  show ?thesis
    using a b c e by blast
qed

text \<open>
  A catalog without a template: the bootstrap run returns \<open>None\<close> and writes nothing, so
  no bootstrap table exists afterwards, and assembly stops with FileNotFoundError (the
  physics script writes only its own file).
\<close>

theorem bootstrap_without_template_breaks_assembly:
  "template_events [small_event] = [] \<and>
   generate_bootstrap_synthetics to_year_2010 draws_5_8 (catalog_only [small_event])
     = Inr (None, catalog_only [small_event], [No_synthetic_events]) \<and>
   assemble_dataset to_year_2010 (catalog_only [small_event]) = Inl FileNotFoundError"
proof -
  have "template_events [small_event] = []"
    by (simp add: template_events_def small_event_def catalog_row_def)
  then show ?thesis
    by (simp add: generate_bootstrap_synthetics_def assemble_dataset_def catalog_only_def
        to_year_2010_def bootstrap_synthetic_events_def)
qed

end
